theory Spec2Isabelle
  imports Complex_Main "HOL-Library.Word"
begin

section \<open>Voice pipeline: shallow embedding of the client hook and the server endpoint\<close>

text \<open>
  The development follows \<^verbatim>\<open>src/src/hooks/useVoicePipeline.ts\<close> (the React hook that owns
  the analyser, the VAD loop, the recorder and the playback) and the
  \<^verbatim>\<open>/api/voice/process\<close> handler of \<^verbatim>\<open>src/server/index.js\<close>.

  Conventions of the embedding:
  \<^item> a JavaScript \<^verbatim>\<open>number\<close> is a \<^typ>\<open>real\<close>: arithmetic is exact, the rounding of
    IEEE doubles and the value NaN are outside the model (where the source can produce
    NaN, the model uses an option and says so);
  \<^item> a \<^verbatim>\<open>Uint8Array\<close> is a list of 8-bit words, a \<^verbatim>\<open>Blob\<close> the list of its bytes;
  \<^item> a ref (\<^verbatim>\<open>useRef\<close>) that may hold \<^verbatim>\<open>null\<close> is an option;
  \<^item> a callback that mutates refs is a function from the refs to the updated refs.
\<close>

subsection \<open>Audio level analyser\<close>

type_synonym byte = "8 word"

text \<open>\<^verbatim>\<open>Math.round\<close>: the nearest integer, a tie going towards plus infinity.\<close>

definition js_round :: "real \<Rightarrow> int" where
  "js_round x = \<lfloor>x + 1 / 2\<rfloor>"

text \<open>\<^verbatim>\<open>const val = (dataArray[i] - 128) / 128\<close>\<close>

definition sampleVal :: "byte \<Rightarrow> real" where
  "sampleVal b = (real (unat b) - 128) / 128"

text \<open>The \<^verbatim>\<open>for\<close> loop over the window, \<^verbatim>\<open>sumSquares\<close> being the accumulator.\<close>

fun sumSquaresLoop :: "byte list \<Rightarrow> real \<Rightarrow> real" where
  "sumSquaresLoop [] sumSquares = sumSquares"
| "sumSquaresLoop (b # bs) sumSquares =
     sumSquaresLoop bs (sumSquares + sampleVal b * sampleVal b)"

definition rmsOf :: "byte list \<Rightarrow> real" where
  "rmsOf dataArray = sqrt (sumSquaresLoop dataArray 0 / real (length dataArray))"

text \<open>\<^verbatim>\<open>Math.max(0, Math.min(255, Math.round(rms * 255)))\<close>\<close>

definition levelOf :: "real \<Rightarrow> int" where
  "levelOf rms = max 0 (min 255 (js_round (rms * 255)))"

text \<open>
  \<^verbatim>\<open>computeAudioLevelAndVad\<close>: the argument is the window read from the analyser,
  \<open>None\<close> when \<^verbatim>\<open>analyserRef.current\<close> is null. The result is the pair (level, rms).
\<close>

definition computeAudioLevelAndVad :: "byte list option \<Rightarrow> int \<times> real" where
  "computeAudioLevelAndVad analyser =
     (case analyser of
        None \<Rightarrow> (0, 0)
      | Some dataArray \<Rightarrow> (levelOf (rmsOf dataArray), rmsOf dataArray))"

subsection \<open>Hysteresis thresholds\<close>

text \<open>The three constants computed at each tick of the VAD interval.\<close>

definition margin :: "real \<Rightarrow> real" where
  "margin vadThreshold = 0.02 + 0.06 * vadThreshold"

definition onThresh :: "real \<Rightarrow> real \<Rightarrow> real" where
  "onThresh noiseFloor vadThreshold = noiseFloor + margin vadThreshold"

definition offThresh :: "real \<Rightarrow> real \<Rightarrow> real" where
  "offThresh noiseFloor vadThreshold = noiseFloor + margin vadThreshold * 0.5"

subsection \<open>Types of the hook\<close>

text \<open>\<^verbatim>\<open>src/src/types\<close>: the application state, the connection state, the error shown.\<close>

datatype AppState = Idle | Connecting | Listening | Speaking | Error

datatype ConnectionState = Disconnected | ConnConnecting | Connected | ConnError

datatype ErrorType = Microphone | Connection | Api | General

record AppError =
  errType :: ErrorType
  message :: string

record CoquiSettings =
  coquiTemp :: "real option"
  length_penalty :: "real option"
  repetition_penalty :: "real option"
  top_k :: "real option"
  top_p :: "real option"

text \<open>
  \<^verbatim>\<open>AppConfig\<close>. An optional field (\<^verbatim>\<open>aiLanguage?\<close>) is an option, \<open>None\<close> being
  \<^verbatim>\<open>undefined\<close>. The field \<^verbatim>\<open>temperature\<close> of \<^verbatim>\<open>coquiSettings\<close> is \<open>coquiTemp\<close> here.
\<close>

record AppConfig =
  systemPrompt :: string
  greeting :: string
  volume :: real
  showSubtitles :: bool
  voice :: string
  vadThreshold :: real
  silenceDurationMs :: real
  prefixPaddingMs :: real
  turnDetectionType :: string
  temperature :: real
  aiLanguage :: "string option"
  micGain :: "real option"
  ttsProvider :: "string option"
  ttsModel :: "string option"
  openaiSpeed :: "real option"
  piperSpeed :: "real option"
  piperPitch :: "real option"
  coquiSettings :: "CoquiSettings option"

text \<open>The platform objects the refs point to, reduced to what the hook reads and writes.\<close>

datatype RecordingState = Inactive | Recording | Paused

record MediaRecorder =
  recState :: RecordingState
  mimeType :: string

text \<open>
  An \<^verbatim>\<open>AudioParam\<close> driven by \<^verbatim>\<open>setTargetAtTime (target, startTime, timeConstant)\<close>:
  the last target and time constant requested.
\<close>

record GainNode =
  gainTarget :: real
  gainTimeConstant :: real

datatype FormValue = BlobValue "byte list" | TextValue string

type_synonym FormData = "(string \<times> FormValue) list"

text \<open>
  The refs and React states of \<^verbatim>\<open>useVoicePipeline\<close>, followed by the part of the
  browser they act on: the microphone tracks that are live, the animation frames and
  intervals that are scheduled, the audio elements that are playing, the number of
  \<^verbatim>\<open>stop\<close> events the recorders have queued, and the requests sent with \<^verbatim>\<open>fetch\<close>.
  A media stream is the list of the identifiers of its tracks; a timer, a frame request
  and an audio element are identifiers too.
\<close>

record hook =
  state :: AppState
  connectionState :: ConnectionState
  error :: "AppError option"
  audioLevel :: int
  mediaStreamRef :: "nat list option"
  audioContextRef :: "unit option"
  analyserRef :: "unit option"
  rafRef :: "nat option"
  processedStreamRef :: "unit option"
  gateGainRef :: "GainNode option"
  preGainRef :: "GainNode option"
  noiseFloorRef :: real
  vadVoiceStateRef :: bool
  recorderRef :: "MediaRecorder option"
  chunksRef :: "byte list list"
  speakingRef :: bool
  lastVoiceMsRef :: real
  vadIntervalRef :: "nat option"
  activeAudioRef :: "nat option"
  liveTracks :: "nat set"
  pendingFrames :: "nat set"
  activeIntervals :: "nat set"
  playingAudio :: "nat set"
  stopEvents :: nat
  requests :: "FormData list"

datatype js_exn = InvalidStateError | TypeError

subsection \<open>Recorder\<close>

text \<open>
  \<^verbatim>\<open>MediaRecorder.stop ()\<close> of the platform: an \<^verbatim>\<open>InvalidStateError\<close> on an inactive
  recorder, otherwise the recorder becomes inactive (and queues a last
  \<^verbatim>\<open>dataavailable\<close> event and a \<^verbatim>\<open>stop\<close> event).
\<close>

definition MediaRecorder_stop :: "MediaRecorder \<Rightarrow> js_exn + MediaRecorder" where
  "MediaRecorder_stop r =
     (if recState r = Inactive then Inl InvalidStateError
      else Inr (r\<lparr>recState := Inactive\<rparr>))"

text \<open>
  \<^verbatim>\<open>startRecorder\<close>. The argument is the answer of
  \<^verbatim>\<open>MediaRecorder.isTypeSupported ('audio/webm;codecs=opus')\<close>.
\<close>

definition startRecorder :: "bool \<Rightarrow> hook \<Rightarrow> hook" where
  "startRecorder opusSupported h =
     (if mediaStreamRef h = None then h
      else if (case recorderRef h of None \<Rightarrow> False | Some r \<Rightarrow> recState r \<noteq> Inactive) then h
      else h\<lparr>chunksRef := [],
             recorderRef := Some \<lparr>recState = Recording,
               mimeType = (if opusSupported then ''audio/webm;codecs=opus'' else ''audio/webm'')\<rparr>\<rparr>)"

text \<open>\<^verbatim>\<open>stopRecorder\<close>: the call of \<^verbatim>\<open>stop\<close> sits in a \<^verbatim>\<open>try\<close> whose \<^verbatim>\<open>catch\<close> is empty.\<close>

definition stopRecorder :: "hook \<Rightarrow> hook" where
  "stopRecorder h =
     (case recorderRef h of
        None \<Rightarrow> h
      | Some r \<Rightarrow>
          if recState r \<noteq> Inactive then
            (case MediaRecorder_stop r of
               Inl e \<Rightarrow> h
             | Inr r' \<Rightarrow> h\<lparr>recorderRef := Some r', stopEvents := Suc (stopEvents h)\<rparr>)
          else h)"

subsection \<open>Voice activity detection\<close>

text \<open>
  \<^verbatim>\<open>gateGainRef.current.gain.setTargetAtTime (target, currentTime, timeConstant)\<close>,
  guarded by \<^verbatim>\<open>gateGainRef.current && audioContextRef.current\<close>.
\<close>

definition setGate :: "real \<Rightarrow> real \<Rightarrow> hook \<Rightarrow> hook" where
  "setGate target timeConstant h =
     (if gateGainRef h \<noteq> None \<and> audioContextRef h \<noteq> None
      then h\<lparr>gateGainRef := Some \<lparr>gainTarget = target, gainTimeConstant = timeConstant\<rparr>\<rparr>
      else h)"

text \<open>
  One run of the callback of the 50 ms interval set by \<^verbatim>\<open>startConversation\<close>, after
  \<^verbatim>\<open>rms\<close> and \<^verbatim>\<open>now\<close> have been read.
\<close>

definition vadTick :: "AppConfig \<Rightarrow> bool \<Rightarrow> real \<Rightarrow> real \<Rightarrow> hook \<Rightarrow> hook" where
  "vadTick config opusSupported rms now h =
     (let alpha = 0.98;
          h1 = (if \<not> vadVoiceStateRef h
                then h\<lparr>noiseFloorRef := noiseFloorRef h * alpha + rms * (1 - alpha)\<rparr>
                else h);
          isVoice = (if vadVoiceStateRef h1
                     then rms > offThresh (noiseFloorRef h1) (vadThreshold config)
                     else rms > onThresh (noiseFloorRef h1) (vadThreshold config))
      in if isVoice then
           (let h2 = setGate 1.0 0.015 (h1\<lparr>lastVoiceMsRef := now\<rparr>)
            in if \<not> speakingRef h2
               then startRecorder opusSupported
                      (h2\<lparr>speakingRef := True, vadVoiceStateRef := True, state := Listening\<rparr>)
               else h2)
         else
           (let h2 = (if speakingRef h1 then
                        (let silenceFor = now - lastVoiceMsRef h1
                         in if silenceFor \<ge> silenceDurationMs config
                            then stopRecorder (h1\<lparr>speakingRef := False, vadVoiceStateRef := False\<rparr>)
                            else h1)
                      else h1)
            in setGate 0.04 0.08 h2))"

text \<open>
  The interval callback itself: the window is what the analyser delivers at this tick,
  and is only read when \<^verbatim>\<open>analyserRef.current\<close> is set.
\<close>

definition vadIntervalCallback ::
  "AppConfig \<Rightarrow> bool \<Rightarrow> byte list \<Rightarrow> real \<Rightarrow> hook \<Rightarrow> hook" where
  "vadIntervalCallback config opusSupported dataArray now h =
     vadTick config opusSupported
       (snd (computeAudioLevelAndVad (map_option (\<lambda>_. dataArray) (analyserRef h)))) now h"

text \<open>Successive ticks, each with the rms and the clock value it reads.\<close>

fun vadRun :: "AppConfig \<Rightarrow> bool \<Rightarrow> (real \<times> real) list \<Rightarrow> hook \<Rightarrow> hook" where
  "vadRun config opusSupported [] h = h"
| "vadRun config opusSupported ((rms, now) # ticks) h =
     vadRun config opusSupported ticks (vadTick config opusSupported rms now h)"

subsection \<open>Session start and stop\<close>

text \<open>The initial values of the \<^verbatim>\<open>useState\<close> and \<^verbatim>\<open>useRef\<close> calls; nothing is scheduled or live.\<close>

definition initialHook :: hook where
  "initialHook =
     \<lparr>state = Idle, connectionState = Disconnected, error = None, audioLevel = 0,
      mediaStreamRef = None, audioContextRef = None, analyserRef = None, rafRef = None,
      processedStreamRef = None, gateGainRef = None, preGainRef = None,
      noiseFloorRef = 0.01, vadVoiceStateRef = False, recorderRef = None, chunksRef = [],
      speakingRef = False, lastVoiceMsRef = 0, vadIntervalRef = None, activeAudioRef = None,
      liveTracks = {}, pendingFrames = {}, activeIntervals = {}, playingAudio = {},
      stopEvents = 0, requests = []\<rparr>"

text \<open>
  \<^verbatim>\<open>monitorAudio\<close>, its first call of \<^verbatim>\<open>tick\<close>: the level is set and the next frame
  requested, the browser answering with the identifier \<open>frameId\<close>.
\<close>

definition monitorAudio :: "byte list \<Rightarrow> nat \<Rightarrow> hook \<Rightarrow> hook" where
  "monitorAudio dataArray frameId h =
     h\<lparr>audioLevel := fst (computeAudioLevelAndVad (map_option (\<lambda>_. dataArray) (analyserRef h))),
       rafRef := Some frameId,
       pendingFrames := insert frameId (pendingFrames h)\<rparr>"

text \<open>The outcome of \<^verbatim>\<open>navigator.mediaDevices.getUserMedia\<close>.\<close>

datatype UserMedia = Granted "nat list" | NotAllowedError | OtherError

text \<open>
  \<^verbatim>\<open>startConversation\<close>. The arguments after the configuration are the translation
  function \<^verbatim>\<open>t\<close>, the outcome of \<^verbatim>\<open>getUserMedia\<close>, the first analyser window, the
  identifiers the browser gives to the frame request and to the interval, and the clock.
  The construction of the audio graph is taken to succeed; of the graph, the model keeps
  the nodes that the hook stores in refs.
\<close>

definition startConversation ::
  "AppConfig \<Rightarrow> (string \<Rightarrow> string) \<Rightarrow> UserMedia \<Rightarrow> byte list \<Rightarrow> nat \<Rightarrow> nat \<Rightarrow> real
     \<Rightarrow> hook \<Rightarrow> hook" where
  "startConversation config t media dataArray frameId intervalId now h =
     (let h0 = h\<lparr>error := None, state := Connecting, connectionState := ConnConnecting\<rparr>
      in case media of
           Granted tracks \<Rightarrow>
             (let h1 = h0\<lparr>mediaStreamRef := Some tracks,
                          liveTracks := liveTracks h0 \<union> set tracks,
                          audioContextRef := Some (),
                          preGainRef := Some \<lparr>gainTarget =
                             max 0.5 (min 3.0 (case micGain config of None \<Rightarrow> 1.5 | Some g \<Rightarrow> g)),
                             gainTimeConstant = 0\<rparr>,
                          gateGainRef := Some \<lparr>gainTarget = 1.0, gainTimeConstant = 0\<rparr>,
                          analyserRef := Some (),
                          processedStreamRef := Some ()\<rparr>;
                  h2 = monitorAudio dataArray frameId h1
              in h2\<lparr>speakingRef := False, lastVoiceMsRef := now,
                    vadIntervalRef := Some intervalId,
                    activeIntervals := insert intervalId (activeIntervals h2),
                    connectionState := Connected, state := Listening\<rparr>)
         | NotAllowedError \<Rightarrow>
             h0\<lparr>error := Some \<lparr>errType = Microphone, message = t ''error.microphone''\<rparr>,
                state := Error, connectionState := ConnError\<rparr>
         | OtherError \<Rightarrow>
             h0\<lparr>error := Some \<lparr>errType = General, message = t ''error.general''\<rparr>,
                state := Error, connectionState := ConnError\<rparr>)"

text \<open>
  \<^verbatim>\<open>t\<close> of the language context is \<^verbatim>\<open>translations[language][key] || key\<close>; the table
  of translations is not part of the sources at hand, so \<^verbatim>\<open>t\<close> is a parameter. This is the
  function for a table without entries.
\<close>

definition t_key :: "string \<Rightarrow> string" where
  "t_key key = key"

text \<open>
  \<^verbatim>\<open>DEFAULT_CONFIG\<close> of \<^verbatim>\<open>src/src/config/constants.ts\<close>. A letter outside ASCII is written
  as the two bytes of its UTF-8 encoding.
\<close>

definition DEFAULT_CONFIG :: AppConfig where
  "DEFAULT_CONFIG =
     \<lparr>systemPrompt = ''Du bist Buddy, ein warmherziger '' @ [CHR 0xC3, CHR 0xA4]
        @ ''lterer Mann, der ruhig, humorvoll und geduldig spricht. Du h''
        @ [CHR 0xC3, CHR 0xB6] @ ''rst aufmerksam zu und gibst hilfsreiche, ermutigende ''
        @ ''Antworten. Du sprichst Deutsch und verwendest eine freundliche, aber ''
        @ ''respektvolle Sprache. Halte deine Antworten kurz und pr''
        @ [CHR 0xC3, CHR 0xA4] @ ''gnant, aber warmherzig.'',
      greeting = ''Sch'' @ [CHR 0xC3, CHR 0xB6] @ ''n, dass du da bist. Wie geht es dir heute?'',
      volume = 80, showSubtitles = False, voice = ''alloy'', vadThreshold = 0,
      silenceDurationMs = 500, prefixPaddingMs = 300, turnDetectionType = ''server_vad'',
      temperature = 0.8, aiLanguage = Some ''de'', micGain = Some 1.5,
      ttsProvider = Some ''openai'', ttsModel = Some ''tts-1'',
      openaiSpeed = Some 1.0, piperSpeed = Some 1.0, piperPitch = Some 1.0,
      coquiSettings = Some \<lparr>coquiTemp = Some 0.7, length_penalty = Some 1.0,
        repetition_penalty = Some 1.0, top_k = Some 50, top_p = Some 0.85\<rparr>\<rparr>"

text \<open>
  A session that has started (one microphone track, a silent first window, the frame
  request 1 and the interval 2), and the same session after a first loud tick.
\<close>

definition startedHook :: hook where
  "startedHook = startConversation DEFAULT_CONFIG t_key (Granted [1]) [128] 1 2 0 initialHook"

definition speakingHook :: hook where
  "speakingHook = vadTick DEFAULT_CONFIG True 0.3 50 startedHook"

text \<open>
  \<^verbatim>\<open>try { attempt } catch {}\<close> run from the state \<open>h\<close>: a throw leaves \<open>h\<close> as it was.
\<close>

definition try_catch :: "js_exn + hook \<Rightarrow> hook \<Rightarrow> hook" where
  "try_catch attempt h = (case attempt of Inl e \<Rightarrow> h | Inr h' \<Rightarrow> h')"

text \<open>\<^verbatim>\<open>HTMLMediaElement.pause ()\<close> of the platform, which does not throw.\<close>

definition HTMLMediaElement_pause :: "nat \<Rightarrow> hook \<Rightarrow> js_exn + hook" where
  "HTMLMediaElement_pause a h = Inr (h\<lparr>playingAudio := playingAudio h - {a}\<rparr>)"

text \<open>
  The statements of \<^verbatim>\<open>stopConversation\<close> in their order. A timer identifier is tested
  for truthiness before it is cancelled, so the identifier 0 would not be; \<^verbatim>\<open>rafRef\<close> and
  \<^verbatim>\<open>vadIntervalRef\<close> keep their values.
\<close>

text \<open>\<^verbatim>\<open>if (rafRef.current) cancelAnimationFrame (rafRef.current)\<close>\<close>

definition cancelFrame :: "hook \<Rightarrow> hook" where
  "cancelFrame h =
     (case rafRef h of
        None \<Rightarrow> h
      | Some i \<Rightarrow> if i \<noteq> 0 then h\<lparr>pendingFrames := pendingFrames h - {i}\<rparr> else h)"

text \<open>\<^verbatim>\<open>if (vadIntervalRef.current) window.clearInterval (vadIntervalRef.current)\<close>\<close>

definition clearVadInterval :: "hook \<Rightarrow> hook" where
  "clearVadInterval h =
     (case vadIntervalRef h of
        None \<Rightarrow> h
      | Some i \<Rightarrow> if i \<noteq> 0 then h\<lparr>activeIntervals := activeIntervals h - {i}\<rparr> else h)"

text \<open>
  \<^verbatim>\<open>if (activeAudioRef.current) { try { activeAudioRef.current.pause () } catch {}
  activeAudioRef.current = null }\<close>
\<close>

definition pauseActiveAudio :: "hook \<Rightarrow> hook" where
  "pauseActiveAudio h =
     (case activeAudioRef h of
        None \<Rightarrow> h
      | Some a \<Rightarrow> (try_catch (HTMLMediaElement_pause a h) h)\<lparr>activeAudioRef := None\<rparr>)"

text \<open>
  \<^verbatim>\<open>if (mediaStreamRef.current) { mediaStreamRef.current.getTracks ().forEach ((t) =>
  t.stop ()); mediaStreamRef.current = null }\<close>
\<close>

definition stopTracks :: "hook \<Rightarrow> hook" where
  "stopTracks h =
     (case mediaStreamRef h of
        None \<Rightarrow> h
      | Some tracks \<Rightarrow> h\<lparr>liveTracks := liveTracks h - set tracks, mediaStreamRef := None\<rparr>)"

text \<open>
  \<^verbatim>\<open>stopConversation\<close>. The result is a sum so that a throw would be a value; every call
  that the source guards with \<^verbatim>\<open>try\<close> is guarded here.
\<close>

definition stopConversation :: "hook \<Rightarrow> js_exn + hook" where
  "stopConversation h =
     (let h1 = cancelFrame h;
          h2 = clearVadInterval h1;
          h3 = try_catch (Inr (stopRecorder h2)) h2;
          h4 = pauseActiveAudio h3;
          h5 = stopTracks h4;
          h6 = h5\<lparr>processedStreamRef := None, gateGainRef := None, preGainRef := None,
                  audioContextRef := None, analyserRef := None, recorderRef := None\<rparr>
      in Inr (h6\<lparr>audioLevel := 0, state := Idle, connectionState := Disconnected,
                  error := None\<rparr>))"

subsection \<open>Recorder events and upload\<close>

text \<open>\<^verbatim>\<open>recorder.ondataavailable\<close>: \<open>None\<close> is an event without data.\<close>

definition ondataavailable :: "byte list option \<Rightarrow> hook \<Rightarrow> hook" where
  "ondataavailable data h =
     (case data of
        None \<Rightarrow> h
      | Some d \<Rightarrow> if length d > 0 then h\<lparr>chunksRef := chunksRef h @ [d]\<rparr> else h)"

text \<open>\<^verbatim>\<open>a || b\<close> for a string that may be undefined: the empty string is falsy.\<close>

definition orText :: "string option \<Rightarrow> string \<Rightarrow> string" where
  "orText a b = (case a of None \<Rightarrow> b | Some x \<Rightarrow> if x = [] then b else x)"

text \<open>
  \<^verbatim>\<open>a || b\<close> for a number: \<open>None\<close> stands for \<^verbatim>\<open>undefined\<close>, \<^verbatim>\<open>null\<close> and NaN, which
  are falsy as 0 is.
\<close>

definition orNum :: "real option \<Rightarrow> real \<Rightarrow> real" where
  "orNum a b = (case a of None \<Rightarrow> b | Some x \<Rightarrow> if x = 0 then b else x)"

text \<open>\<^verbatim>\<open>if (config.x) form.append (name, String (config.x))\<close>\<close>

definition appendIfSet :: "(real \<Rightarrow> string) \<Rightarrow> string \<Rightarrow> real option \<Rightarrow> FormData" where
  "appendIfSet numToString name x =
     (case x of
        None \<Rightarrow> []
      | Some v \<Rightarrow> if v \<noteq> 0 then [(name, TextValue (numToString v))] else [])"

text \<open>
  The form built by \<^verbatim>\<open>recorder.onstop\<close>. \<open>numToString\<close> is \<^verbatim>\<open>String\<close> on numbers; the
  file name and the type of the blob are left out.
\<close>

definition buildForm :: "(real \<Rightarrow> string) \<Rightarrow> bool \<Rightarrow> AppConfig \<Rightarrow> byte list \<Rightarrow> FormData" where
  "buildForm numToString devRoute config blob =
     [(''audio'', BlobValue blob)] @
     (if \<not> devRoute then
        [(''systemPrompt'', TextValue (systemPrompt config)),
         (''temperature'', TextValue (numToString (temperature config))),
         (''voice'', TextValue (voice config)),
         (''language'', TextValue (if aiLanguage config = Some ''en'' then ''en'' else ''de'')),
         (''ttsProvider'', TextValue (orText (ttsProvider config) ''openai'')),
         (''ttsModel'', TextValue (orText (ttsModel config) ''tts-1'')),
         (''greeting'', TextValue (orText (Some (greeting config)) []))]
        @ appendIfSet numToString ''openaiSpeed'' (openaiSpeed config)
        @ appendIfSet numToString ''piperSpeed'' (piperSpeed config)
        @ appendIfSet numToString ''piperPitch'' (piperPitch config)
        @ appendIfSet numToString ''coquiTemperature''
            (case coquiSettings config of None \<Rightarrow> None | Some c \<Rightarrow> coquiTemp c)
      else
        [(''language'', TextValue (if aiLanguage config = Some ''en'' then ''en'' else ''de''))])"

text \<open>\<^verbatim>\<open>location.pathname === '/dev' || location.pathname === '/debug'\<close>\<close>

definition isDevRoute :: "string \<Rightarrow> bool" where
  "isDevRoute pathname = (pathname = ''/dev'' \<or> pathname = ''/debug'')"

text \<open>
  \<^verbatim>\<open>recorder.onstop\<close> up to the call of \<^verbatim>\<open>fetch\<close>: the blob is made of the chunks, the
  chunks are cleared, the form is built and posted to \<^verbatim>\<open>/api/voice/process\<close>.
\<close>

definition onstopRequest :: "(real \<Rightarrow> string) \<Rightarrow> string \<Rightarrow> AppConfig \<Rightarrow> hook \<Rightarrow> hook" where
  "onstopRequest numToString pathname config h =
     (let blob = concat (chunksRef h)
      in h\<lparr>chunksRef := [],
           requests := requests h @ [buildForm numToString (isDevRoute pathname) config blob]\<rparr>)"

subsection \<open>Response and playback\<close>

datatype Payload = NoPayload | AudioPayload "byte list list" | JsonPayload "(string \<times> string) list"

record Response =
  respStatus :: nat
  respContentType :: string
  respPayload :: Payload

datatype FetchOutcome = NetworkFailure | Responded Response

text \<open>\<^verbatim>\<open>resp.ok\<close>\<close>

definition respOk :: "Response \<Rightarrow> bool" where
  "respOk resp = (200 \<le> respStatus resp \<and> respStatus resp \<le> 299)"

text \<open>
  The text of a JSON object whose values are strings (characters are written as they
  are, without escapes), and the bytes of a text.
\<close>

definition jsonText :: "(string \<times> string) list \<Rightarrow> string" where
  "jsonText pairs =
     ''{'' @ concat (map (\<lambda>(k, v). [CHR 0x22] @ k @ [CHR 0x22] @ '':'' @ [CHR 0x22] @ v @ [CHR 0x22] @ '','') pairs)
     @ ''}''"

definition bytesOf :: "string \<Rightarrow> byte list" where
  "bytesOf str = map (\<lambda>c. of_nat (of_char c)) str"

text \<open>\<^verbatim>\<open>await resp.blob ()\<close>: the whole body.\<close>

definition respBlob :: "Response \<Rightarrow> byte list" where
  "respBlob resp =
     (case respPayload resp of
        NoPayload \<Rightarrow> []
      | AudioPayload chunks \<Rightarrow> concat chunks
      | JsonPayload pairs \<Rightarrow> bytesOf (jsonText pairs))"

text \<open>What the browser offers for streaming playback.\<close>

record Runtime =
  hasMediaSource :: bool
  hasIsTypeSupported :: bool
  isTypeSupported :: "string \<Rightarrow> bool"

definition enableStreaming :: bool where
  "enableStreaming = False"

definition canUseMSE :: "Runtime \<Rightarrow> Response \<Rightarrow> bool" where
  "canUseMSE rt resp =
     (enableStreaming \<and> respPayload resp \<noteq> NoPayload \<and> hasMediaSource rt
      \<and> hasIsTypeSupported rt \<and> isTypeSupported rt ''audio/mpeg'')"

text \<open>
  \<^verbatim>\<open>fallbackToBlob\<close>: the result is the blob given to the audio element, which is
  \<^verbatim>\<open>prebuiltBlob || await resp.blob ()\<close>. A blob is an object, truthy even when empty.
\<close>

definition fallbackToBlob :: "byte list option \<Rightarrow> Response \<Rightarrow> byte list" where
  "fallbackToBlob prebuiltBlob resp =
     (case prebuiltBlob of Some b \<Rightarrow> b | None \<Rightarrow> respBlob resp)"

text \<open>
  The variables of the streaming branch of \<^verbatim>\<open>tryStream\<close>. \<open>reader\<close> is \<open>None\<close> until
  \<^verbatim>\<open>sourceopen\<close> assigns it, \<open>Some True\<close> while it reads and \<open>Some False\<close> once cancelled;
  \<open>unread\<close> holds the chunks of the body the reader has not delivered; \<open>running\<close> says that
  \<^verbatim>\<open>run\<close> is in its loop, \<open>awaitingAppend\<close> that it waits in \<^verbatim>\<open>appendChunk\<close> for
  \<^verbatim>\<open>updateend\<close>, and \<open>awaitingPlay\<close> that it waits for \<^verbatim>\<open>audioEl.play ()\<close> to settle;
  \<open>playing\<close> says that this call of \<^verbatim>\<open>play\<close> was fulfilled; \<open>ended\<close> says that
  \<^verbatim>\<open>safeEnd\<close> was called; \<open>fallbackPlayed\<close> is the blob that \<^verbatim>\<open>fallbackToBlob\<close> gave to the
  audio element.
\<close>

record stream =
  started :: bool
  aborted :: bool
  reader :: "bool option"
  running :: bool
  awaitingAppend :: bool
  awaitingPlay :: bool
  playing :: bool
  receivedChunks :: "byte list list"
  unread :: "byte list list"
  ended :: bool
  fallbackPlayed :: "byte list option"

definition newStream :: "Response \<Rightarrow> stream" where
  "newStream resp =
     \<lparr>started = False, aborted = False, reader = None, running = False,
      awaitingAppend = False, awaitingPlay = False, playing = False, receivedChunks = [],
      unread = (case respPayload resp of
                  NoPayload \<Rightarrow> []
                | AudioPayload chunks \<Rightarrow> chunks
                | JsonPayload pairs \<Rightarrow> [bytesOf (jsonText pairs)]),
      ended = False, fallbackPlayed = None\<rparr>"

text \<open>The listener of \<^verbatim>\<open>sourceopen\<close> (registered once), \<^verbatim>\<open>addSourceBuffer\<close> succeeding.\<close>

definition sourceopen :: "stream \<Rightarrow> stream" where
  "sourceopen s = (if reader s = None then s\<lparr>reader := Some True, running := True\<rparr> else s)"

text \<open>
  One turn of the loop of \<^verbatim>\<open>run\<close>, when \<^verbatim>\<open>reader.read ()\<close> settles: the read is done
  when the body is exhausted or the reader was cancelled; an empty chunk is skipped;
  another chunk is pushed and appended.
\<close>

definition readSettles :: "stream \<Rightarrow> stream" where
  "readSettles s =
     (if running s \<and> \<not> awaitingAppend s \<and> \<not> awaitingPlay s then
        (case unread s of
           [] \<Rightarrow> s\<lparr>running := False, ended := True\<rparr>
         | chunk # rest \<Rightarrow>
             if reader s = Some False then s\<lparr>running := False, ended := True\<rparr>
             else if length chunk > 0
             then s\<lparr>unread := rest, receivedChunks := receivedChunks s @ [chunk],
                    awaitingAppend := True\<rparr>
             else s\<lparr>unread := rest\<rparr>)
      else s)"

text \<open>
  \<^verbatim>\<open>updateend\<close> resolves \<^verbatim>\<open>appendChunk\<close>. The first time, \<^verbatim>\<open>started\<close> is set and
  \<^verbatim>\<open>audioEl.play ()\<close> is awaited: the flag is set before the call, whatever its outcome.
\<close>

definition updateend :: "stream \<Rightarrow> stream" where
  "updateend s =
     (if awaitingAppend s then
        (if \<not> started s then s\<lparr>awaitingAppend := False, started := True, awaitingPlay := True\<rparr>
         else s\<lparr>awaitingAppend := False\<rparr>)
      else s)"

text \<open>
  \<^verbatim>\<open>try { await audioEl.play () } catch {}\<close> settles, fulfilled (\<open>True\<close>) or rejected: a
  rejection is swallowed and \<^verbatim>\<open>started\<close> stays set.
\<close>

definition playSettles :: "bool \<Rightarrow> stream \<Rightarrow> stream" where
  "playSettles fulfilled s =
     (if awaitingPlay s then s\<lparr>awaitingPlay := False, playing := fulfilled\<rparr> else s)"

text \<open>The callback of the 1200 ms timer.\<close>

definition watchdog :: "Response \<Rightarrow> stream \<Rightarrow> stream" where
  "watchdog resp s =
     (if \<not> started s \<and> \<not> aborted s then
        s\<lparr>aborted := True,
          reader := map_option (\<lambda>_. False) (reader s),
          ended := True,
          fallbackPlayed := Some (fallbackToBlob (Some (concat (receivedChunks s))) resp)\<rparr>
      else s)"

datatype streamEvent = SourceOpen | ReadSettles | UpdateEnd | PlaySettles bool | WatchdogFires

fun streamStep :: "Response \<Rightarrow> streamEvent \<Rightarrow> stream \<Rightarrow> stream" where
  "streamStep resp SourceOpen s = sourceopen s"
| "streamStep resp ReadSettles s = readSettles s"
| "streamStep resp UpdateEnd s = updateend s"
| "streamStep resp (PlaySettles fulfilled) s = playSettles fulfilled s"
| "streamStep resp WatchdogFires s = watchdog resp s"

text \<open>The events of one playback in the order in which the event loop runs them.\<close>

fun streamRun :: "Response \<Rightarrow> streamEvent list \<Rightarrow> stream \<Rightarrow> stream" where
  "streamRun resp [] s = s"
| "streamRun resp (e # es) s = streamRun resp es (streamStep resp e s)"

datatype Playback = Buffered "byte list" | Streamed stream

text \<open>\<^verbatim>\<open>tryStream\<close>, up to the point where either branch has set up the audio element.\<close>

definition tryStream :: "Runtime \<Rightarrow> Response \<Rightarrow> Playback" where
  "tryStream rt resp =
     (if \<not> canUseMSE rt resp then Buffered (fallbackToBlob None resp)
      else Streamed (newStream resp))"




text \<open>
  \<^verbatim>\<open>recorder.onstop\<close> from the moment \<^verbatim>\<open>fetch\<close> settles. \<open>newAudioId\<close> identifies the
  audio element that is created when \<^verbatim>\<open>activeAudioRef\<close> holds none; \<^verbatim>\<open>play\<close> is taken to
  succeed. The calls of the debug service, which change nothing in the hook, are left out.
\<close>

definition onstopResponse ::
  "(string \<Rightarrow> string) \<Rightarrow> Runtime \<Rightarrow> nat \<Rightarrow> FetchOutcome \<Rightarrow> hook \<Rightarrow> hook \<times> Playback option" where
  "onstopResponse t rt newAudioId outcome h =
     (case outcome of
        NetworkFailure \<Rightarrow>
          (h\<lparr>error := Some \<lparr>errType = General, message = t ''error.general''\<rparr>,
             state := Error\<rparr>, None)
      | Responded resp \<Rightarrow>
          if \<not> respOk resp then
            (h\<lparr>error := Some \<lparr>errType = Api, message = t ''error.general''\<rparr>,
               state := Error\<rparr>, None)
          else
            (let a = (case activeAudioRef h of None \<Rightarrow> newAudioId | Some a \<Rightarrow> a);
                 h1 = h\<lparr>state := Speaking, activeAudioRef := Some a\<rparr>;
                 playback = tryStream rt resp
             in (case playback of
                   Buffered b \<Rightarrow> (h1\<lparr>playingAudio := insert a (playingAudio h1)\<rparr>, Some playback)
                 | Streamed s \<Rightarrow> (h1, Some playback))))"

subsection \<open>Server: the handler of /api/voice/process\<close>

text \<open>\<^verbatim>\<open>String.prototype.includes\<close>\<close>

fun str_includes :: "string \<Rightarrow> string \<Rightarrow> bool" where
  "str_includes [] sub = (sub = [])"
| "str_includes (c # cs) sub = (take (length sub) (c # cs) = sub \<or> str_includes cs sub)"

text \<open>
  The settings object that \<^verbatim>\<open>firebaseSettingsService.getCurrentSettings ()\<close> returns, with
  the fields the handler reads. It comes from the database as JSON, so any field may be
  missing.
\<close>

record ServerSettings =
  fbSystemPrompt :: "string option"
  fbAiLanguage :: "string option"
  fbTemperature :: "real option"
  fbVoice :: "string option"
  fbTtsProvider :: "string option"
  fbTtsModel :: "string option"
  fbOpenaiSpeed :: "real option"
  fbPiperSpeed :: "real option"
  fbPiperPitch :: "real option"
  fbCoquiSettings :: "CoquiSettings option"

text \<open>\<^verbatim>\<open>DEFAULT_CONFIG\<close> of \<^verbatim>\<open>src/server/services/defaultConfig.js\<close>, the same fields.\<close>

definition SERVER_DEFAULT_CONFIG :: ServerSettings where
  "SERVER_DEFAULT_CONFIG =
     \<lparr>fbSystemPrompt = Some ''You are a helpful, friendly assistant. Reply concisely and in English.'',
      fbAiLanguage = Some ''en'', fbTemperature = Some 0.8, fbVoice = Some ''alloy'',
      fbTtsProvider = Some ''openai'', fbTtsModel = Some ''tts-1'',
      fbOpenaiSpeed = None, fbPiperSpeed = Some 1.0, fbPiperPitch = Some 1.0,
      fbCoquiSettings = Some \<lparr>coquiTemp = Some 0.7, length_penalty = Some 1.0,
        repetition_penalty = Some 1.0, top_k = Some 50, top_p = Some 0.85\<rparr>\<rparr>"

text \<open>\<^verbatim>\<open>getCurrentSettings\<close>: \<^verbatim>\<open>this.settingsCache || DEFAULT_CONFIG\<close>\<close>

definition getCurrentSettings :: "ServerSettings option \<Rightarrow> ServerSettings" where
  "getCurrentSettings settingsCache =
     (case settingsCache of None \<Rightarrow> SERVER_DEFAULT_CONFIG | Some c \<Rightarrow> c)"

text \<open>
  The request after \<^verbatim>\<open>upload.single ('audio')\<close>: the file of the field \<^verbatim>\<open>audio\<close> and the
  text fields, which become \<^verbatim>\<open>req.body\<close>.
\<close>

record Request =
  reqFile :: "byte list option"
  reqBody :: "(string \<times> string) list"

fun textParts :: "FormData \<Rightarrow> (string \<times> string) list" where
  "textParts [] = []"
| "textParts ((name, TextValue v) # rest) = (name, v) # textParts rest"
| "textParts ((name, BlobValue b) # rest) = textParts rest"

fun filePart :: "FormData \<Rightarrow> byte list option" where
  "filePart [] = None"
| "filePart ((name, BlobValue b) # rest) = (if name = ''audio'' then Some b else filePart rest)"
| "filePart ((name, TextValue v) # rest) = filePart rest"

definition receive :: "FormData \<Rightarrow> Request" where
  "receive form = \<lparr>reqFile = filePart form, reqBody = textParts form\<rparr>"

text \<open>
  \<^verbatim>\<open>req.body.name\<close> where the handler tests it for truthiness: \<open>None\<close> when the field is
  missing or empty.
\<close>

definition bodyText :: "(string \<times> string) list \<Rightarrow> string \<Rightarrow> string option" where
  "bodyText body name =
     (case map_of body name of None \<Rightarrow> None | Some v \<Rightarrow> if v = [] then None else Some v)"

text \<open>
  \<^verbatim>\<open>req.body.name ? parseFloat (req.body.name) : null\<close>. \<open>parseFloat\<close> is a parameter; it
  answers \<open>None\<close> where JavaScript answers NaN.
\<close>

definition bodyNum :: "(string \<Rightarrow> real option) \<Rightarrow> (string \<times> string) list \<Rightarrow> string \<Rightarrow> real option" where
  "bodyNum parseFloat body name =
     (case bodyText body name of None \<Rightarrow> None | Some v \<Rightarrow> parseFloat v)"

definition englishPrompt :: string where
  "englishPrompt = ''You are a helpful, friendly assistant. Reply concisely and in English.''"

definition germanPrompt :: string where
  "germanPrompt = ''Du bist Buddy, ein warmherziger '' @ [CHR 0xC3, CHR 0xA4]
     @ ''lterer Mann, der ruhig, humorvoll und geduldig spricht. ''
     @ ''Du h'' @ [CHR 0xC3, CHR 0xB6] @ ''rst aufmerksam zu und gibst hilfreiche, ermutigende Antworten. ''
     @ ''Du sprichst Deutsch und verwendest eine freundliche, respektvolle Sprache. ''
     @ ''Halte deine Antworten kurz und pr'' @ [CHR 0xC3, CHR 0xA4] @ ''gnant, aber warmherzig.''"

text \<open>The constants that the handler computes from the request and the settings.\<close>

record ResolvedConfig =
  useLanguage :: string
  useSystemPrompt :: string
  useTemperature :: real
  useVoice :: string
  useTtsProvider :: string
  useTtsModel :: string
  useOpenaiSpeed :: real
  usePiperSpeed :: real
  usePiperPitch :: real
  useCoquiTemperature :: real

definition resolveConfig ::
  "(string \<Rightarrow> real option) \<Rightarrow> (string \<times> string) list \<Rightarrow> ServerSettings \<Rightarrow> ResolvedConfig" where
  "resolveConfig parseFloat body firebaseSettings =
     (let language = orText (bodyText body ''language'')
                       (orText (fbAiLanguage firebaseSettings) ''de'')
      in \<lparr>useLanguage = language,
          useSystemPrompt =
            orText (bodyText body ''systemPrompt'')
              (orText (fbSystemPrompt firebaseSettings)
                 (if language = ''en'' then englishPrompt else germanPrompt)),
          useTemperature =
            orNum (map_option (\<lambda>x. max 0 (min 2 x)) (bodyNum parseFloat body ''temperature''))
              (orNum (fbTemperature firebaseSettings) 0.7),
          useVoice = orText (bodyText body ''voice'') (orText (fbVoice firebaseSettings) ''alloy''),
          useTtsProvider =
            orText (bodyText body ''ttsProvider'') (orText (fbTtsProvider firebaseSettings) ''openai''),
          useTtsModel =
            orText (bodyText body ''ttsModel'') (orText (fbTtsModel firebaseSettings) ''tts-1''),
          useOpenaiSpeed =
            orNum (bodyNum parseFloat body ''openaiSpeed'') (orNum (fbOpenaiSpeed firebaseSettings) 1.0),
          usePiperSpeed =
            orNum (bodyNum parseFloat body ''piperSpeed'') (orNum (fbPiperSpeed firebaseSettings) 1.0),
          usePiperPitch =
            orNum (bodyNum parseFloat body ''piperPitch'') (orNum (fbPiperPitch firebaseSettings) 1.0),
          useCoquiTemperature =
            orNum (bodyNum parseFloat body ''coquiTemperature'')
              (orNum (case fbCoquiSettings firebaseSettings of None \<Rightarrow> None | Some c \<Rightarrow> coquiTemp c)
                 0.7)\<rparr>)"

text \<open>
  The \<^verbatim>\<open>catch\<close> block of the handler: the label is chosen by what the message of the
  error includes, and the reply has status 500.
\<close>

definition errorLabel :: "string \<Rightarrow> string" where
  "errorLabel msg =
     (if str_includes msg ''Whisper'' \<or> str_includes msg ''transcription'' then ''STT service failed''
      else if str_includes msg ''GPT'' \<or> str_includes msg ''LLM'' then ''LLM service failed''
      else if str_includes msg ''TTS'' then ''TTS service failed''
      else ''Server error in voice pipeline'')"

definition errorReply :: "string \<Rightarrow> Response" where
  "errorReply msg =
     \<lparr>respStatus = 500, respContentType = ''application/json'',
      respPayload = JsonPayload [(''error'', errorLabel msg), (''details'', msg)]\<rparr>"

record TtsOptions =
  optVoice :: string
  optLanguage :: string
  optProvider :: string
  optModel :: string
  optSpeed :: real
  optPitch :: real
  optTemperature :: real

text \<open>
  The three services, which are outside the handler: each answers the message of the
  error it throws (\<open>Inl\<close>) or its result. \<open>getContentType\<close> is what the speech service
  reports for its audio.
\<close>

record Services =
  transcribe :: "byte list \<Rightarrow> string \<Rightarrow> string + string"
  generateResponse :: "string \<Rightarrow> string \<Rightarrow> real \<Rightarrow> string \<Rightarrow> string + string"
  synthesize :: "string \<Rightarrow> TtsOptions \<Rightarrow> string + byte list list"
  getContentType :: string

text \<open>
  The handler, in the steps of its \<^verbatim>\<open>try\<close> block. Each step answers the message of the
  error thrown (\<open>Inl\<close>) or its result; the \<^verbatim>\<open>catch\<close> block receives the message.
\<close>

text \<open>
  Step 1, the user text: the test message in test mode, the transcription of the file
  otherwise. Without a file, reading \<^verbatim>\<open>req.file.buffer\<close> throws a \<^verbatim>\<open>TypeError\<close>.
\<close>

definition userTextStep :: "Services \<Rightarrow> Request \<Rightarrow> bool \<Rightarrow> string \<Rightarrow> string + string" where
  "userTextStep sv req isTestMode language =
     (if isTestMode \<and> bodyText (reqBody req) ''message'' \<noteq> None
      then Inr (the (bodyText (reqBody req) ''message''))
      else (case reqFile req of
              None \<Rightarrow> Inl ''Cannot read properties of undefined''
            | Some buffer \<Rightarrow> transcribe sv buffer language))"

text \<open>Step 2, the assistant text: the user text itself in test mode.\<close>

definition assistantTextStep ::
  "Services \<Rightarrow> bool \<Rightarrow> ResolvedConfig \<Rightarrow> string \<Rightarrow> string + string" where
  "assistantTextStep sv isTestMode c userText =
     (if isTestMode then Inr userText
      else generateResponse sv userText (useSystemPrompt c) (useTemperature c) (useLanguage c))"

text \<open>Step 3, the options of the speech synthesis.\<close>

definition ttsOptions :: "ResolvedConfig \<Rightarrow> TtsOptions" where
  "ttsOptions c =
     \<lparr>optVoice = useVoice c, optLanguage = useLanguage c,
      optProvider = useTtsProvider c, optModel = useTtsModel c,
      optSpeed = (if useTtsProvider c = ''openai'' then useOpenaiSpeed c
                  else if useTtsProvider c = ''piper'' then usePiperSpeed c
                  else 1.0),
      optPitch = orNum (Some (usePiperPitch c)) 1.0,
      optTemperature = useCoquiTemperature c\<rparr>"

text \<open>The handler. The headers with timings and texts are left out.\<close>

definition voiceProcess ::
  "(string \<Rightarrow> real option) \<Rightarrow> Services \<Rightarrow> ServerSettings \<Rightarrow> Request \<Rightarrow> Response" where
  "voiceProcess parseFloat sv firebaseSettings req =
     (let isTestMode = (map_of (reqBody req) ''testMode'' = Some ''true'')
      in if reqFile req = None \<and> \<not> isTestMode then
           \<lparr>respStatus = 400, respContentType = ''application/json'',
            respPayload = JsonPayload [(''error'', ''No audio file uploaded'')]\<rparr>
         else
           (let c = resolveConfig parseFloat (reqBody req) firebaseSettings
            in case userTextStep sv req isTestMode (useLanguage c) of
                 Inl msg \<Rightarrow> errorReply msg
               | Inr userText \<Rightarrow>
                   (case assistantTextStep sv isTestMode c userText of
                      Inl msg \<Rightarrow> errorReply msg
                    | Inr assistantText \<Rightarrow>
                        (case synthesize sv assistantText (ttsOptions c) of
                           Inl msg \<Rightarrow> errorReply msg
                         | Inr audio \<Rightarrow>
                             \<lparr>respStatus = 200, respContentType = getContentType sv,
                              respPayload = AudioPayload audio\<rparr>))))"

subsection \<open>Values for concrete runs\<close>

text \<open>
  \<^verbatim>\<open>String\<close> and \<^verbatim>\<open>parseFloat\<close> on the numbers of \<^verbatim>\<open>DEFAULT_CONFIG\<close>, which is all the
  concrete runs ask of them.
\<close>

definition numText :: "real \<Rightarrow> string" where
  "numText x = (if x = 0.8 then ''0.8'' else if x = 0.7 then ''0.7'' else if x = 1 then ''1'' else ''0'')"

definition textNum :: "string \<Rightarrow> real option" where
  "textNum str =
     (if str = ''0.8'' then Some 0.8 else if str = ''0.7'' then Some 0.7
      else if str = ''1'' then Some 1 else if str = ''0'' then Some 0 else None)"

text \<open>A browser with every feature the streaming branch asks for, and a reply with audio.\<close>

definition fullRuntime :: Runtime where
  "fullRuntime = \<lparr>hasMediaSource = True, hasIsTypeSupported = True, isTypeSupported = (\<lambda>mime. True)\<rparr>"

definition audioResponse :: Response where
  "audioResponse =
     \<lparr>respStatus = 200, respContentType = ''audio/mpeg'', respPayload = AudioPayload [[1], [2]]\<rparr>"

text \<open>A session whose microphone was refused.\<close>

definition refusedHook :: hook where
  "refusedHook = startConversation DEFAULT_CONFIG t_key NotAllowedError [128] 1 2 0 initialHook"

text \<open>Services whose transcription fails, as when the speech-to-text request times out.\<close>

definition failingServices :: Services where
  "failingServices =
     \<lparr>transcribe = (\<lambda>buffer language. Inl ''Whisper transcription failed: timeout''),
      generateResponse = (\<lambda>userText prompt temp language. Inr ''Hello''),
      synthesize = (\<lambda>assistantText options. Inr [[1], [2]]),
      getContentType = ''audio/mpeg''\<rparr>"

text \<open>The numbers that \<^verbatim>\<open>recorder.onstop\<close> may pass to \<^verbatim>\<open>String\<close> when it builds the form.\<close>

definition formNumbers :: "AppConfig \<Rightarrow> real set" where
  "formNumbers config =
     {temperature config} \<union> set_option (openaiSpeed config) \<union> set_option (piperSpeed config)
     \<union> set_option (piperPitch config)
     \<union> (case coquiSettings config of None \<Rightarrow> {} | Some c \<Rightarrow> set_option (coquiTemp c))"

section \<open>Properties\<close>

subsection \<open>Audio level\<close>

lemma sumSquaresLoop_acc:
  "sumSquaresLoop bs acc = acc + (\<Sum>b\<leftarrow>bs. (sampleVal b)\<^sup>2)"
  by (induction bs arbitrary: acc) (simp_all add: power2_eq_square)

lemma byte_bound: "unat (b::byte) < 256"
  using unsigned_less [of b, where ?'a = nat] by simp

lemma centred_range:
  "0 \<le> (x::real) \<Longrightarrow> x < 256 \<Longrightarrow> - 1 \<le> (x - 128) / 128 \<and> (x - 128) / 128 \<le> 1"
  by simp

lemma sampleVal_range: "- 1 \<le> sampleVal b \<and> sampleVal b \<le> 1"
proof -
  have "real (unat b) < real 256"
    using byte_bound [of b] by (simp only: of_nat_less_iff)
  then have lt: "real (unat b) < 256"
    by (simp only: of_nat_numeral)
  have ge: "0 \<le> real (unat b)"
    by (simp only: of_nat_0_le_iff)
  show ?thesis
    unfolding sampleVal_def using ge lt by (rule centred_range)
qed

lemma sampleVal_sq_le_one: "(sampleVal b)\<^sup>2 \<le> 1"
  using sampleVal_range [of b] by (simp add: abs_square_le_1 abs_le_iff)

lemma sum_sq_le_length: "(\<Sum>b\<leftarrow>bs. (sampleVal b)\<^sup>2) \<le> real (length bs)"
proof (induction bs)
  case Nil
  show ?case by simp
next
  case (Cons b bs)
  from sampleVal_sq_le_one [of b] Cons show ?case by simp
qed

lemma sum_sq_nonneg: "0 \<le> (\<Sum>b\<leftarrow>bs. (sampleVal b)\<^sup>2)"
  by (induction bs) simp_all

lemma rmsOf_range: "0 \<le> rmsOf dataArray \<and> rmsOf dataArray \<le> 1"
proof -
  let ?s = "\<Sum>b\<leftarrow>dataArray. (sampleVal b)\<^sup>2"
  have "0 \<le> ?s / real (length dataArray)"
    using sum_sq_nonneg by simp
  moreover have "?s / real (length dataArray) \<le> 1"
    using sum_sq_le_length [of dataArray] by (cases "dataArray = []") simp_all
  ultimately show ?thesis
    by (simp add: rmsOf_def sumSquaresLoop_acc)
qed

lemma js_round_eq_round: "js_round x = round x"
  by (simp add: js_round_def round_def)

lemma round_clamp_commute:
  "round (max 0 (min 255 (x::real))) = max 0 (min 255 (round x))"
proof -
  have a: "x \<le> 0 \<Longrightarrow> round x \<le> 0" using round_mono [of x 0] by simp
  have b: "0 \<le> x \<Longrightarrow> 0 \<le> round x" using round_mono [of 0 x] by simp
  have c: "x \<le> 255 \<Longrightarrow> round x \<le> 255" using round_mono [of x 255] by simp
  have d: "255 \<le> x \<Longrightarrow> 255 \<le> round x" using round_mono [of 255 x] by simp
  show ?thesis
  proof (cases "x \<le> 0")
    case True
    with a show ?thesis by (simp add: max_def min_def)
  next
    case False
    note pos = this
    show ?thesis
    proof (cases "x \<le> 255")
      case True
      with pos b c show ?thesis by (simp add: max_def min_def)
    next
      case False
      with pos d b show ?thesis by (simp add: max_def min_def)
    qed
  qed
qed

lemma levelOf_round_clamp: "levelOf rms = round (max 0 (min 255 (rms * 255)))"
  by (simp add: levelOf_def js_round_eq_round round_clamp_commute)

lemma levelOf_mono: "r1 \<le> r2 \<Longrightarrow> levelOf r1 \<le> levelOf r2"
proof -
  assume "r1 \<le> r2"
  then have "js_round (r1 * 255) \<le> js_round (r2 * 255)"
    unfolding js_round_def by (intro floor_mono) simp
  then show ?thesis by (simp add: levelOf_def)
qed

text \<open>
  C7. For a non-empty analyser window the returned rms is the square root of the mean of
  the squared centred samples ((sample - 128) / 128), the returned level is
  round (clamp (rms * 255, 0, 255)), the rms lies in [0, 1], and over [0, 1] the level is
  monotonic non-decreasing in the rms and an integer between 0 and 255.
\<close>

theorem audio_level_rms_and_display:
  assumes "dataArray \<noteq> []"
  shows "snd (computeAudioLevelAndVad (Some dataArray)) =
           sqrt ((\<Sum>b\<leftarrow>dataArray. ((real (unat b) - 128) / 128)\<^sup>2) / real (length dataArray))
       \<and> fst (computeAudioLevelAndVad (Some dataArray)) =
           round (max 0 (min 255 (snd (computeAudioLevelAndVad (Some dataArray)) * 255)))
       \<and> 0 \<le> snd (computeAudioLevelAndVad (Some dataArray))
       \<and> snd (computeAudioLevelAndVad (Some dataArray)) \<le> 1
       \<and> (\<forall>r1 r2. 0 \<le> r1 \<and> r1 \<le> r2 \<and> r2 \<le> 1 \<longrightarrow> levelOf r1 \<le> levelOf r2)
       \<and> (\<forall>r. 0 \<le> r \<and> r \<le> 1 \<longrightarrow>
             levelOf r = round (max 0 (min 255 (r * 255))) \<and> 0 \<le> levelOf r \<and> levelOf r \<le> 255)"
proof -
  have rms: "snd (computeAudioLevelAndVad (Some dataArray)) = rmsOf dataArray"
    by (simp add: computeAudioLevelAndVad_def)
  have lvl: "fst (computeAudioLevelAndVad (Some dataArray)) = levelOf (rmsOf dataArray)"
    by (simp add: computeAudioLevelAndVad_def)
  have c1: "rmsOf dataArray =
      sqrt ((\<Sum>b\<leftarrow>dataArray. ((real (unat b) - 128) / 128)\<^sup>2) / real (length dataArray))"
    by (simp add: rmsOf_def sumSquaresLoop_acc sampleVal_def)
  have c2: "levelOf (rmsOf dataArray) = round (max 0 (min 255 (rmsOf dataArray * 255)))"
    by (rule levelOf_round_clamp)
  have c5: "\<forall>r1 r2. 0 \<le> r1 \<and> r1 \<le> r2 \<and> r2 \<le> 1 \<longrightarrow> levelOf r1 \<le> levelOf r2"
    using levelOf_mono by blast
  have rng: "\<And>r. 0 \<le> levelOf r \<and> levelOf r \<le> 255"
    by (simp add: levelOf_def)
  have c6: "\<forall>r. 0 \<le> r \<and> r \<le> 1 \<longrightarrow>
             levelOf r = round (max 0 (min 255 (r * 255))) \<and> 0 \<le> levelOf r \<and> levelOf r \<le> 255"
    using rng levelOf_round_clamp by blast
  from c1 c2 c5 c6 rmsOf_range [of dataArray] show ?thesis
    unfolding rms lvl by blast
qed

theorem audio_level_rms_and_display_witness:
  "[0, 0 :: byte] \<noteq> []
   \<and> snd (computeAudioLevelAndVad (Some [0, 0 :: byte])) = 1
   \<and> fst (computeAudioLevelAndVad (Some [0, 0 :: byte])) = 255
   \<and> levelOf 0 \<le> levelOf 1"
proof -
  have ne: "[0, 0 :: byte] \<noteq> []" by simp
  note t = audio_level_rms_and_display [OF ne]
  have r: "snd (computeAudioLevelAndVad (Some [0, 0 :: byte])) = 1"
    using t [THEN conjunct1] by simp
  have l: "fst (computeAudioLevelAndVad (Some [0, 0 :: byte])) = 255"
    using t [THEN conjunct2, THEN conjunct1] unfolding r by simp
  have m: "levelOf 0 \<le> levelOf 1"
    using t [THEN conjunct2, THEN conjunct2, THEN conjunct2, THEN conjunct2, THEN conjunct1]
    by simp
  from ne r l m show ?thesis by blast
qed

subsection \<open>Hysteresis band\<close>

text \<open>
  C3. For every noise floor and every user threshold that is not negative, the entry
  threshold minus the exit threshold is margin * 0.5, which is positive; with the
  threshold 0 the margin is the base margin 0.02, so the band is 0.01 wide.
\<close>

theorem hysteresis_band_positive:
  assumes "0 \<le> threshold"
  shows "onThresh noiseFloor threshold - offThresh noiseFloor threshold
           = margin threshold * 0.5
       \<and> 0 < margin threshold * 0.5
       \<and> offThresh noiseFloor threshold < onThresh noiseFloor threshold
       \<and> margin 0 = 0.02
       \<and> onThresh noiseFloor 0 - offThresh noiseFloor 0 = 0.01"
proof -
  have pos: "0 < margin threshold"
    using assms by (simp add: margin_def add_pos_nonneg)
  have band: "onThresh noiseFloor threshold - offThresh noiseFloor threshold
      = margin threshold * 0.5"
    by (simp add: onThresh_def offThresh_def)
  have zero: "margin 0 = 0.02"
    by (simp add: margin_def)
  have band0: "onThresh noiseFloor 0 - offThresh noiseFloor 0 = 0.01"
    by (simp add: onThresh_def offThresh_def zero)
  from pos have half: "0 < margin threshold * 0.5"
    by simp
  with band have "offThresh noiseFloor threshold < onThresh noiseFloor threshold"
    by linarith
  with band half zero band0 show ?thesis
    by blast
qed

theorem hysteresis_band_positive_witness:
  "(0::real) \<le> 1 \<and> onThresh 0.01 1 - offThresh 0.01 1 = 0.04
   \<and> offThresh 0.01 1 < onThresh 0.01 1"
  using hysteresis_band_positive [of 1 "0.01"]
  by (simp add: margin_def)


subsection \<open>Concrete runs\<close>

text \<open>The definitions that a concrete run of the hook unfolds.\<close>

lemmas run_simps = vadTick_def startConversation_def initialHook_def DEFAULT_CONFIG_def
  monitorAudio_def setGate_def startRecorder_def stopRecorder_def MediaRecorder_stop_def
  computeAudioLevelAndVad_def onThresh_def offThresh_def margin_def Let_def
  startedHook_def speakingHook_def

subsection \<open>Noise floor\<close>

lemma setGate_fields:
  "noiseFloorRef (setGate a b h) = noiseFloorRef h"
  "vadVoiceStateRef (setGate a b h) = vadVoiceStateRef h"
  "speakingRef (setGate a b h) = speakingRef h"
  "lastVoiceMsRef (setGate a b h) = lastVoiceMsRef h"
  "recorderRef (setGate a b h) = recorderRef h"
  "stopEvents (setGate a b h) = stopEvents h"
  by (simp_all add: setGate_def)

lemma startRecorder_fields:
  "noiseFloorRef (startRecorder p h) = noiseFloorRef h"
  "vadVoiceStateRef (startRecorder p h) = vadVoiceStateRef h"
  "speakingRef (startRecorder p h) = speakingRef h"
  "lastVoiceMsRef (startRecorder p h) = lastVoiceMsRef h"
  "stopEvents (startRecorder p h) = stopEvents h"
  by (simp_all add: startRecorder_def)

lemma stopRecorder_fields:
  "noiseFloorRef (stopRecorder h) = noiseFloorRef h"
  "vadVoiceStateRef (stopRecorder h) = vadVoiceStateRef h"
  "speakingRef (stopRecorder h) = speakingRef h"
  "lastVoiceMsRef (stopRecorder h) = lastVoiceMsRef h"
  by (simp_all add: stopRecorder_def MediaRecorder_stop_def split: option.splits)

lemma vadTick_noiseFloor:
  "noiseFloorRef (vadTick config p rms now h) =
     (if vadVoiceStateRef h then noiseFloorRef h else noiseFloorRef h * 0.98 + rms * 0.02)"
  by (simp add: vadTick_def Let_def setGate_fields startRecorder_fields stopRecorder_fields)

lemma vadRun_noiseFloor:
  "(\<forall>n < length ticks. vadVoiceStateRef (vadRun config p (take n ticks) h))
     \<Longrightarrow> noiseFloorRef (vadRun config p ticks h) = noiseFloorRef h"
proof (induction ticks arbitrary: h)
  case Nil
  show ?case by simp
next
  case (Cons tick ticks)
  obtain rms now where tick: "tick = (rms, now)" by (cases tick)
  let ?h1 = "vadTick config p rms now h"
  have v0: "vadVoiceStateRef h"
    using Cons.prems [rule_format, of 0] by simp
  have "\<forall>n < length ticks. vadVoiceStateRef (vadRun config p (take n ticks) ?h1)"
  proof (intro allI impI)
    fix n assume "n < length ticks"
    then have "Suc n < length (tick # ticks)" by simp
    from Cons.prems [rule_format, OF this] show "vadVoiceStateRef (vadRun config p (take n ticks) ?h1)"
      by (simp add: tick)
  qed
  then have "noiseFloorRef (vadRun config p ticks ?h1) = noiseFloorRef ?h1"
    by (rule Cons.IH)
  also have "\<dots> = noiseFloorRef h"
    using v0 by (simp add: vadTick_noiseFloor)
  finally show ?case by (simp add: tick)
qed

text \<open>
  C1. At every tick the noise floor is left as it is when \<^verbatim>\<open>vadVoiceStateRef\<close> is true,
  and becomes noiseFloor * 0.98 + rms * 0.02 when it is false. Hence over any sequence of
  ticks before each of which the voice state is true, the noise floor keeps the value it
  had at the start, the tick at which the voice state returns to false included.
\<close>

theorem noise_floor_frozen_while_voice:
  "noiseFloorRef (vadTick config p rms now h) =
     (if vadVoiceStateRef h then noiseFloorRef h else noiseFloorRef h * 0.98 + rms * 0.02)
   \<and> ((\<forall>n < length ticks. vadVoiceStateRef (vadRun config p (take n ticks) h))
        \<longrightarrow> noiseFloorRef (vadRun config p ticks h) = noiseFloorRef h)"
  using vadTick_noiseFloor [of config p rms now h] vadRun_noiseFloor [of ticks config p h]
  by blast

theorem noise_floor_frozen_while_voice_witness:
  "noiseFloorRef (vadTick DEFAULT_CONFIG True 0.3 50 startedHook) = 0.01 * 0.98 + 0.3 * 0.02
   \<and> vadVoiceStateRef speakingHook
   \<and> vadVoiceStateRef (vadRun DEFAULT_CONFIG True [(0.3, 100)] speakingHook)
   \<and> noiseFloorRef (vadRun DEFAULT_CONFIG True [(0.3, 100), (0.005, 150)] speakingHook)
       = noiseFloorRef speakingHook"
proof -
  have a: "\<not> vadVoiceStateRef startedHook"
    by (simp add: run_simps)
  have b: "noiseFloorRef startedHook = 0.01"
    by (simp add: run_simps)
  have hyp: "\<forall>n < length [(0.3, 100), (0.005, 150 :: real)].
         vadVoiceStateRef (vadRun DEFAULT_CONFIG True (take n [(0.3, 100), (0.005, 150)]) speakingHook)"
    by (simp add: All_less_Suc run_simps)
  from noise_floor_frozen_while_voice [of DEFAULT_CONFIG True "0.3" 50 startedHook "[]"] a b
  have "noiseFloorRef (vadTick DEFAULT_CONFIG True 0.3 50 startedHook) = 0.01 * 0.98 + 0.3 * 0.02"
    by simp
  moreover from noise_floor_frozen_while_voice
     [of DEFAULT_CONFIG True 0 0 speakingHook "[(0.3, 100), (0.005, 150)]"] hyp
  have "noiseFloorRef (vadRun DEFAULT_CONFIG True [(0.3, 100), (0.005, 150)] speakingHook)
       = noiseFloorRef speakingHook"
    by blast
  moreover have "vadVoiceStateRef speakingHook"
    "vadVoiceStateRef (vadRun DEFAULT_CONFIG True [(0.3, 100)] speakingHook)"
    by (simp_all add: run_simps)
  ultimately show ?thesis by blast
qed

subsection \<open>End of speech\<close>

lemma stopRecorder_recording:
  "recorderRef h = Some r \<Longrightarrow> recState r \<noteq> Inactive \<Longrightarrow>
     recorderRef (stopRecorder h) = Some (r\<lparr>recState := Inactive\<rparr>)
     \<and> stopEvents (stopRecorder h) = Suc (stopEvents h)"
  by (simp add: stopRecorder_def MediaRecorder_stop_def)

text \<open>
  The speaking flag and the voice state are set together and reset together, and a new
  session resets the speaking flag only; so in every state that the hook reaches, speaking
  implies that the voice state is set.
\<close>

lemma vadTick_flags:
  assumes "speakingRef h \<longrightarrow> vadVoiceStateRef h"
  shows "speakingRef (vadTick config p rms now h) \<longrightarrow> vadVoiceStateRef (vadTick config p rms now h)"
  using assms
  by (simp add: vadTick_def Let_def setGate_fields startRecorder_fields stopRecorder_fields)

lemma vadRun_flags:
  assumes "speakingRef h \<longrightarrow> vadVoiceStateRef h"
  shows "speakingRef (vadRun config p ticks h) \<longrightarrow> vadVoiceStateRef (vadRun config p ticks h)"
  using assms
proof (induction ticks arbitrary: h)
  case Nil
  then show ?case by simp
next
  case (Cons tick ticks)
  obtain rms now where t: "tick = (rms, now)" by (cases tick)
  from Cons.IH [OF vadTick_flags [OF Cons.prems, of config p rms now]]
  show ?case by (simp add: t)
qed

lemma startConversation_flags:
  assumes "speakingRef h \<longrightarrow> vadVoiceStateRef h"
  shows "speakingRef (startConversation config t media w f i now h)
     \<longrightarrow> vadVoiceStateRef (startConversation config t media w f i now h)"
  using assms
  by (cases media) (simp_all add: startConversation_def monitorAudio_def Let_def)

lemma initialHook_flags: "speakingRef initialHook \<longrightarrow> vadVoiceStateRef initialHook"
  by (simp add: initialHook_def)

lemma vadTick_speaking_eq:
  assumes "speakingRef h" and "vadVoiceStateRef h"
  shows "vadTick config p rms now h =
     (if rms > offThresh (noiseFloorRef h) (vadThreshold config)
      then setGate 1.0 0.015 (h\<lparr>lastVoiceMsRef := now\<rparr>)
      else if now - lastVoiceMsRef h \<ge> silenceDurationMs config
      then setGate 0.04 0.08 (stopRecorder (h\<lparr>speakingRef := False, vadVoiceStateRef := False\<rparr>))
      else setGate 0.04 0.08 h)"
  using assms by (simp add: vadTick_def Let_def setGate_fields)

lemma vadTick_speaking_iff:
  assumes "speakingRef h" and "vadVoiceStateRef h"
  shows "speakingRef (vadTick config p rms now h) \<longleftrightarrow>
     \<not> (rms \<le> offThresh (noiseFloorRef h) (vadThreshold config)
        \<and> silenceDurationMs config \<le> now - lastVoiceMsRef h)"
  using assms
  by (simp add: vadTick_speaking_eq setGate_fields stopRecorder_fields not_less)

lemma vadRun_append:
  "vadRun config p (xs @ ys) h = vadRun config p ys (vadRun config p xs h)"
  by (induction xs arbitrary: h) auto

lemma vadRun_utterance:
  assumes sp: "speakingRef h" and vo: "vadVoiceStateRef h"
    and alive: "\<forall>n \<le> length ticks. speakingRef (vadRun config p (take n ticks) h)"
  shows "vadVoiceStateRef (vadRun config p ticks h)
       \<and> noiseFloorRef (vadRun config p ticks h) = noiseFloorRef h
       \<and> (\<exists>pre quiet. ticks = pre @ quiet
            \<and> (\<forall>(r, t) \<in> set quiet.
                  r \<le> offThresh (noiseFloorRef h) (vadThreshold config)
                  \<and> t - lastVoiceMsRef (vadRun config p ticks h) < silenceDurationMs config)
            \<and> (if pre = [] then lastVoiceMsRef (vadRun config p ticks h) = lastVoiceMsRef h
                else offThresh (noiseFloorRef h) (vadThreshold config) < fst (last pre)
                   \<and> lastVoiceMsRef (vadRun config p ticks h) = snd (last pre)))"
  using alive
proof (induction ticks rule: rev_induct)
  case Nil
  show ?case using vo by simp
next
  case (snoc tick ticks)
  obtain rms now where tick: "tick = (rms, now)" by (cases tick)
  let ?off = "offThresh (noiseFloorRef h) (vadThreshold config)"
  let ?hm = "vadRun config p ticks h"
  let ?hn = "vadRun config p (ticks @ [(rms, now)]) h"
  note prems = snoc.prems [unfolded tick]
  have hn: "?hn = vadTick config p rms now ?hm"
    by (simp add: vadRun_append)
  have pre_alive: "\<forall>n \<le> length ticks. speakingRef (vadRun config p (take n ticks) h)"
  proof (intro allI impI)
    fix n assume n: "n \<le> length ticks"
    then have "n \<le> length (ticks @ [(rms, now)])" by simp
    from prems [rule_format, OF this] n
    show "speakingRef (vadRun config p (take n ticks) h)" by simp
  qed
  from snoc.IH [OF pre_alive] obtain pre quiet where
    vm: "vadVoiceStateRef ?hm" and nf: "noiseFloorRef ?hm = noiseFloorRef h"
    and dec: "ticks = pre @ quiet"
    and qu: "\<forall>(r, t) \<in> set quiet. r \<le> ?off \<and> t - lastVoiceMsRef ?hm < silenceDurationMs config"
    and lv: "if pre = [] then lastVoiceMsRef ?hm = lastVoiceMsRef h
             else ?off < fst (last pre) \<and> lastVoiceMsRef ?hm = snd (last pre)"
    by blast
  have sm: "speakingRef ?hm"
    using pre_alive [rule_format, of "length ticks"] by simp
  have sn: "speakingRef ?hn"
    using prems [rule_format, of "length (ticks @ [(rms, now)])"] by simp
  note eq = vadTick_speaking_eq [OF sm vm, of config p rms now, unfolded nf]
  have "vadVoiceStateRef ?hn
       \<and> noiseFloorRef ?hn = noiseFloorRef h
       \<and> (\<exists>pre quiet. ticks @ [(rms, now)] = pre @ quiet
            \<and> (\<forall>(r, t) \<in> set quiet.
                  r \<le> ?off \<and> t - lastVoiceMsRef ?hn < silenceDurationMs config)
            \<and> (if pre = [] then lastVoiceMsRef ?hn = lastVoiceMsRef h
                else ?off < fst (last pre) \<and> lastVoiceMsRef ?hn = snd (last pre)))"
  proof (cases "rms > ?off")
    case True
    then have hn': "?hn = setGate 1.0 0.015 (?hm\<lparr>lastVoiceMsRef := now\<rparr>)"
      using eq hn by simp
    have "ticks @ [(rms, now)] = (ticks @ [(rms, now)]) @ []" by simp
    moreover have "?off < fst (last (ticks @ [(rms, now)]))" using True by simp
    moreover have "lastVoiceMsRef ?hn = snd (last (ticks @ [(rms, now)]))"
      by (simp add: hn' setGate_fields)
    moreover have "vadVoiceStateRef ?hn" "noiseFloorRef ?hn = noiseFloorRef h"
      using vm nf by (simp_all add: hn' setGate_fields)
    ultimately show ?thesis
      by (intro conjI exI [of _ "ticks @ [(rms, now)]"] exI [of _ "[]"]) simp_all
  next
    case False
    then have le: "rms \<le> ?off" by simp
    have short: "now - lastVoiceMsRef ?hm < silenceDurationMs config"
      using sn vadTick_speaking_iff [OF sm vm, of config p rms now] le
      by (simp add: hn nf not_le)
    then have hn': "?hn = setGate 0.04 0.08 ?hm"
      using eq hn False by simp
    have l: "lastVoiceMsRef ?hn = lastVoiceMsRef ?hm"
      by (simp add: hn' setGate_fields)
    have "ticks @ [(rms, now)] = pre @ (quiet @ [(rms, now)])" using dec by simp
    moreover have "\<forall>(r, t) \<in> set (quiet @ [(rms, now)]).
        r \<le> ?off \<and> t - lastVoiceMsRef ?hn < silenceDurationMs config"
      unfolding l using qu le short by auto
    moreover have "if pre = [] then lastVoiceMsRef ?hn = lastVoiceMsRef h
             else ?off < fst (last pre) \<and> lastVoiceMsRef ?hn = snd (last pre)"
      unfolding l using lv by simp
    moreover have "vadVoiceStateRef ?hn" "noiseFloorRef ?hn = noiseFloorRef h"
      using vm nf by (simp_all add: hn' setGate_fields)
    ultimately show ?thesis
      by blast
  qed
  then show ?case unfolding tick .
qed


lemma vadTick_end_effects:
  assumes sp: "speakingRef h" and vo: "vadVoiceStateRef h"
    and fire: "\<not> speakingRef (vadTick config p rms now h)"
  shows "\<not> vadVoiceStateRef (vadTick config p rms now h)
       \<and> (\<forall>r. recorderRef h = Some r \<and> recState r \<noteq> Inactive \<longrightarrow>
              recorderRef (vadTick config p rms now h) = Some (r\<lparr>recState := Inactive\<rparr>)
              \<and> stopEvents (vadTick config p rms now h) = Suc (stopEvents h))"
proof -
  let ?hs = "h\<lparr>speakingRef := False, vadVoiceStateRef := False\<rparr>"
  from fire vadTick_speaking_iff [OF sp vo, of config p rms now]
  have c: "rms \<le> offThresh (noiseFloorRef h) (vadThreshold config)"
    "silenceDurationMs config \<le> now - lastVoiceMsRef h"
    by simp_all
  then have eq: "vadTick config p rms now h = setGate 0.04 0.08 (stopRecorder ?hs)"
    using vadTick_speaking_eq [OF sp vo, of config p rms now] by simp
  have "\<not> vadVoiceStateRef (vadTick config p rms now h)"
    by (simp add: eq setGate_fields stopRecorder_fields)
  moreover have "recorderRef (vadTick config p rms now h) = Some (r\<lparr>recState := Inactive\<rparr>)
      \<and> stopEvents (vadTick config p rms now h) = Suc (stopEvents h)"
    if "recorderRef h = Some r" and "recState r \<noteq> Inactive" for r
  proof -
    have "recorderRef ?hs = Some r" using that by simp
    from stopRecorder_recording [OF this that(2)] show ?thesis
      by (simp add: eq setGate_fields)
  qed
  ultimately show ?thesis by blast
qed

lemma vadTick_alive_effects:
  assumes sp: "speakingRef h" and vo: "vadVoiceStateRef h"
    and alive: "speakingRef (vadTick config p rms now h)"
  shows "vadVoiceStateRef (vadTick config p rms now h)
       \<and> recorderRef (vadTick config p rms now h) = recorderRef h
       \<and> stopEvents (vadTick config p rms now h) = stopEvents h
       \<and> noiseFloorRef (vadTick config p rms now h) = noiseFloorRef h
       \<and> lastVoiceMsRef (vadTick config p rms now h) =
           (if rms > offThresh (noiseFloorRef h) (vadThreshold config) then now
            else lastVoiceMsRef h)"
proof -
  from alive vadTick_speaking_iff [OF sp vo, of config p rms now]
  have c: "\<not> (rms \<le> offThresh (noiseFloorRef h) (vadThreshold config)
        \<and> silenceDurationMs config \<le> now - lastVoiceMsRef h)"
    by simp
  show ?thesis
  proof (cases "rms > offThresh (noiseFloorRef h) (vadThreshold config)")
    case True
    then have "vadTick config p rms now h = setGate 1.0 0.015 (h\<lparr>lastVoiceMsRef := now\<rparr>)"
      using vadTick_speaking_eq [OF sp vo, of config p rms now] by simp
    then show ?thesis using vo True by (simp add: setGate_fields)
  next
    case False
    with c have "\<not> silenceDurationMs config \<le> now - lastVoiceMsRef h" by simp
    with False have "vadTick config p rms now h = setGate 0.04 0.08 h"
      using vadTick_speaking_eq [OF sp vo, of config p rms now] by simp
    then show ?thesis using vo False by (simp add: setGate_fields)
  qed
qed

lemma vadTick_debounce:
  assumes sp: "speakingRef h" and vo: "vadVoiceStateRef h"
    and lo: "rms1 \<le> offThresh (noiseFloorRef h) (vadThreshold config)"
    and hi: "offThresh (noiseFloorRef h) (vadThreshold config) < rms2"
    and clock: "t1 \<le> t2"
    and early: "t2 - lastVoiceMsRef h < silenceDurationMs config"
  shows "speakingRef (vadTick config p rms2 t2 (vadTick config p rms1 t1 h))
       \<and> vadVoiceStateRef (vadTick config p rms2 t2 (vadTick config p rms1 t1 h))
       \<and> lastVoiceMsRef (vadTick config p rms2 t2 (vadTick config p rms1 t1 h)) = t2
       \<and> recorderRef (vadTick config p rms2 t2 (vadTick config p rms1 t1 h)) = recorderRef h
       \<and> stopEvents (vadTick config p rms2 t2 (vadTick config p rms1 t1 h)) = stopEvents h"
proof -
  let ?h1 = "vadTick config p rms1 t1 h"
  let ?h2 = "vadTick config p rms2 t2 ?h1"
  have "t1 - lastVoiceMsRef h < silenceDurationMs config"
    using clock early by simp
  then have s1: "speakingRef ?h1"
    using vadTick_speaking_iff [OF sp vo, of config p rms1 t1] by simp
  note e1 = vadTick_alive_effects [OF sp vo s1]
  have v1: "vadVoiceStateRef ?h1" using e1 by simp
  have nf1: "noiseFloorRef ?h1 = noiseFloorRef h" using e1 by simp
  have s2: "speakingRef ?h2"
    using vadTick_speaking_iff [OF s1 v1, of config p rms2 t2] hi by (simp add: nf1)
  note e2 = vadTick_alive_effects [OF s1 v1 s2]
  have "lastVoiceMsRef ?h2 = t2"
    using e2 hi by (simp add: nf1)
  moreover have "vadVoiceStateRef ?h2" using e2 by simp
  moreover have "recorderRef ?h2 = recorderRef h" using e1 e2 by simp
  moreover have "stopEvents ?h2 = stopEvents h" using e1 e2 by simp
  ultimately show ?thesis using s2 by blast
qed

text \<open>
  C2. Take a state in which the hook is speaking, its voice state being set as in every
  state it reaches while speaking, and ticks after which it is still speaking. Then \<^verbatim>\<open>lastVoiceMsRef\<close> is the clock of the last tick whose rms was above
  the off threshold (or its value at the start when there was none), and every tick
  since then was at or below the threshold. At the next tick the speech ends (the speaking
  flag falls) if and only if that tick is at or below the off threshold too and at least
  \<^verbatim>\<open>silenceDurationMs\<close> have passed since \<^verbatim>\<open>lastVoiceMsRef\<close>. When it ends, the voice
  state is reset and a recorder that is recording is stopped; when it does not, the recorder
  is left alone. In particular a tick at or below the threshold followed by a tick above
  it, both before the duration has passed, leaves the hook speaking, leaves the recorder
  alone, and resets \<^verbatim>\<open>lastVoiceMsRef\<close> to the clock of the second tick. A tick is below
  the threshold when it does not count as voice, which is \<^verbatim>\<open>rms > offThresh\<close> failing.
\<close>

theorem speech_end_after_continuous_silence:
  assumes sp: "speakingRef h" and vo: "vadVoiceStateRef h"
    and alive: "\<forall>n \<le> length ticks. speakingRef (vadRun config p (take n ticks) h)"
  defines "hn \<equiv> vadRun config p ticks h"
    and "off \<equiv> offThresh (noiseFloorRef h) (vadThreshold config)"
  shows "(\<exists>pre quiet. ticks = pre @ quiet
            \<and> (\<forall>(r, t) \<in> set quiet. r \<le> off)
            \<and> (pre \<noteq> [] \<longrightarrow> off < fst (last pre))
            \<and> lastVoiceMsRef hn = (if pre = [] then lastVoiceMsRef h else snd (last pre)))
       \<and> (\<forall>rms now.
             (\<not> speakingRef (vadTick config p rms now hn)) =
             (rms \<le> off \<and> silenceDurationMs config \<le> now - lastVoiceMsRef hn))
       \<and> (\<forall>rms now. \<not> speakingRef (vadTick config p rms now hn) \<longrightarrow>
             \<not> vadVoiceStateRef (vadTick config p rms now hn)
             \<and> (\<forall>r. recorderRef hn = Some r \<and> recState r \<noteq> Inactive \<longrightarrow>
                   recorderRef (vadTick config p rms now hn) = Some (r\<lparr>recState := Inactive\<rparr>)
                   \<and> stopEvents (vadTick config p rms now hn) = Suc (stopEvents hn)))
       \<and> (\<forall>rms now. speakingRef (vadTick config p rms now hn) \<longrightarrow>
             vadVoiceStateRef (vadTick config p rms now hn)
             \<and> recorderRef (vadTick config p rms now hn) = recorderRef hn
             \<and> stopEvents (vadTick config p rms now hn) = stopEvents hn)
       \<and> (\<forall>rms1 t1 rms2 t2.
             rms1 \<le> off \<and> off < rms2 \<and> t1 \<le> t2
             \<and> t2 - lastVoiceMsRef hn < silenceDurationMs config \<longrightarrow>
             speakingRef (vadTick config p rms2 t2 (vadTick config p rms1 t1 hn))
             \<and> vadVoiceStateRef (vadTick config p rms2 t2 (vadTick config p rms1 t1 hn))
             \<and> lastVoiceMsRef (vadTick config p rms2 t2 (vadTick config p rms1 t1 hn)) = t2
             \<and> recorderRef (vadTick config p rms2 t2 (vadTick config p rms1 t1 hn)) = recorderRef hn
             \<and> stopEvents (vadTick config p rms2 t2 (vadTick config p rms1 t1 hn)) = stopEvents hn)"
proof -
  note u = vadRun_utterance [OF sp vo alive, folded hn_def off_def]
  have vn: "vadVoiceStateRef hn" and nf: "noiseFloorRef hn = noiseFloorRef h"
    using u by simp_all
  have sn: "speakingRef hn"
    using alive [rule_format, of "length ticks"] by (simp add: hn_def)
  have offn: "offThresh (noiseFloorRef hn) (vadThreshold config) = off"
    by (simp add: nf off_def)
  from u obtain pre quiet where dec: "ticks = pre @ quiet"
    and qu: "\<forall>(r, t) \<in> set quiet. r \<le> off \<and> t - lastVoiceMsRef hn < silenceDurationMs config"
    and lv: "if pre = [] then lastVoiceMsRef hn = lastVoiceMsRef h
             else off < fst (last pre) \<and> lastVoiceMsRef hn = snd (last pre)"
    by blast
  have p1: "\<exists>pre quiet. ticks = pre @ quiet
            \<and> (\<forall>(r, t) \<in> set quiet. r \<le> off)
            \<and> (pre \<noteq> [] \<longrightarrow> off < fst (last pre))
            \<and> lastVoiceMsRef hn = (if pre = [] then lastVoiceMsRef h else snd (last pre))"
  proof (intro exI conjI)
    show "ticks = pre @ quiet" by (rule dec)
    show "\<forall>(r, t) \<in> set quiet. r \<le> off" using qu by auto
    show "pre \<noteq> [] \<longrightarrow> off < fst (last pre)" using lv by (simp split: if_splits)
    show "lastVoiceMsRef hn = (if pre = [] then lastVoiceMsRef h else snd (last pre))"
      using lv by (simp split: if_splits)
  qed
  have p2: "\<forall>rms now.
             (\<not> speakingRef (vadTick config p rms now hn)) =
             (rms \<le> off \<and> silenceDurationMs config \<le> now - lastVoiceMsRef hn)"
    using vadTick_speaking_iff [OF sn vn, of config p] by (simp add: offn)
  have p3: "\<forall>rms now. \<not> speakingRef (vadTick config p rms now hn) \<longrightarrow>
             \<not> vadVoiceStateRef (vadTick config p rms now hn)
             \<and> (\<forall>r. recorderRef hn = Some r \<and> recState r \<noteq> Inactive \<longrightarrow>
                   recorderRef (vadTick config p rms now hn) = Some (r\<lparr>recState := Inactive\<rparr>)
                   \<and> stopEvents (vadTick config p rms now hn) = Suc (stopEvents hn))"
    using vadTick_end_effects [OF sn vn] by blast
  have p4: "\<forall>rms now. speakingRef (vadTick config p rms now hn) \<longrightarrow>
             vadVoiceStateRef (vadTick config p rms now hn)
             \<and> recorderRef (vadTick config p rms now hn) = recorderRef hn
             \<and> stopEvents (vadTick config p rms now hn) = stopEvents hn"
    using vadTick_alive_effects [OF sn vn] by blast
  have p5: "\<forall>rms1 t1 rms2 t2.
             rms1 \<le> off \<and> off < rms2 \<and> t1 \<le> t2
             \<and> t2 - lastVoiceMsRef hn < silenceDurationMs config \<longrightarrow>
             speakingRef (vadTick config p rms2 t2 (vadTick config p rms1 t1 hn))
             \<and> vadVoiceStateRef (vadTick config p rms2 t2 (vadTick config p rms1 t1 hn))
             \<and> lastVoiceMsRef (vadTick config p rms2 t2 (vadTick config p rms1 t1 hn)) = t2
             \<and> recorderRef (vadTick config p rms2 t2 (vadTick config p rms1 t1 hn)) = recorderRef hn
             \<and> stopEvents (vadTick config p rms2 t2 (vadTick config p rms1 t1 hn)) = stopEvents hn"
  proof (intro allI impI)
    fix rms1 t1 rms2 t2
    assume a: "rms1 \<le> off \<and> off < rms2 \<and> t1 \<le> t2
             \<and> t2 - lastVoiceMsRef hn < silenceDurationMs config"
    show "speakingRef (vadTick config p rms2 t2 (vadTick config p rms1 t1 hn))
             \<and> vadVoiceStateRef (vadTick config p rms2 t2 (vadTick config p rms1 t1 hn))
             \<and> lastVoiceMsRef (vadTick config p rms2 t2 (vadTick config p rms1 t1 hn)) = t2
             \<and> recorderRef (vadTick config p rms2 t2 (vadTick config p rms1 t1 hn)) = recorderRef hn
             \<and> stopEvents (vadTick config p rms2 t2 (vadTick config p rms1 t1 hn)) = stopEvents hn"
      by (rule vadTick_debounce [OF sn vn]) (use a in \<open>simp_all add: offn\<close>)
  qed
  from p1 p2 p3 p4 p5 show ?thesis by blast
qed

theorem speech_end_after_continuous_silence_witness:
  "speakingRef speakingHook \<and> vadVoiceStateRef speakingHook
   \<and> speakingRef (vadRun DEFAULT_CONFIG True [(0.3, 100)] speakingHook)
   \<and> speakingRef (vadRun DEFAULT_CONFIG True [(0.3, 100), (0.005, 150)] speakingHook)
   \<and> \<not> speakingRef (vadTick DEFAULT_CONFIG True 0.005 600
          (vadRun DEFAULT_CONFIG True [(0.3, 100), (0.005, 150)] speakingHook))
   \<and> speakingRef (vadTick DEFAULT_CONFIG True 0.005 599
          (vadRun DEFAULT_CONFIG True [(0.3, 100), (0.005, 150)] speakingHook))
   \<and> lastVoiceMsRef (vadTick DEFAULT_CONFIG True 0.3 250 (vadTick DEFAULT_CONFIG True 0.005 200
          (vadRun DEFAULT_CONFIG True [(0.3, 100), (0.005, 150)] speakingHook))) = 250"
proof -
  let ?ticks = "[(0.3, 100), (0.005, 150 :: real)]"
  let ?hn = "vadRun DEFAULT_CONFIG True ?ticks speakingHook"
  have sp: "speakingRef speakingHook" and vo: "vadVoiceStateRef speakingHook"
    by (simp_all add: run_simps)
  have alive: "\<forall>n \<le> length ?ticks.
      speakingRef (vadRun DEFAULT_CONFIG True (take n ?ticks) speakingHook)"
    by (simp add: All_less_Suc le_Suc_eq all_conj_distrib run_simps)
  note t = speech_end_after_continuous_silence [OF sp vo alive]
  have off: "offThresh (noiseFloorRef speakingHook) (vadThreshold DEFAULT_CONFIG) = 0.0258"
    by (simp add: run_simps)
  have lv: "lastVoiceMsRef ?hn = 100"
    by (simp add: run_simps)
  have dur: "silenceDurationMs DEFAULT_CONFIG = 500"
    by (simp add: DEFAULT_CONFIG_def)
  have e1: "\<not> speakingRef (vadTick DEFAULT_CONFIG True 0.005 600 ?hn)"
    using t [THEN conjunct2, THEN conjunct1, rule_format, of "0.005" 600] off lv dur
    by simp
  have e2: "speakingRef (vadTick DEFAULT_CONFIG True 0.005 599 ?hn)"
    using t [THEN conjunct2, THEN conjunct1, rule_format, of "0.005" 599] off lv dur
    by simp
  have e3: "lastVoiceMsRef (vadTick DEFAULT_CONFIG True 0.3 250
      (vadTick DEFAULT_CONFIG True 0.005 200 ?hn)) = 250"
    using t [THEN conjunct2, THEN conjunct2, THEN conjunct2, THEN conjunct2, rule_format,
        of "0.005" "0.3" 200 250] off lv dur
    by simp
  have s1: "speakingRef (vadRun DEFAULT_CONFIG True [(0.3, 100)] speakingHook)"
    and s2: "speakingRef ?hn"
    by (simp_all add: run_simps)
  from sp vo s1 s2 e1 e2 e3 show ?thesis by blast
qed

subsection \<open>Stopping the session\<close>

lemma stopRecorder_no_recorder: "recorderRef h = None \<Longrightarrow> stopRecorder h = h"
  by (simp add: stopRecorder_def)

lemma stopRecorder_frame:
  "rafRef (stopRecorder h) = rafRef h"
  "vadIntervalRef (stopRecorder h) = vadIntervalRef h"
  "activeAudioRef (stopRecorder h) = activeAudioRef h"
  "mediaStreamRef (stopRecorder h) = mediaStreamRef h"
  "pendingFrames (stopRecorder h) = pendingFrames h"
  "activeIntervals (stopRecorder h) = activeIntervals h"
  "liveTracks (stopRecorder h) = liveTracks h"
  "playingAudio (stopRecorder h) = playingAudio h"
  by (simp_all add: stopRecorder_def MediaRecorder_stop_def split: option.splits)

lemma cancelFrame_frame:
  "rafRef (cancelFrame h) = rafRef h"
  "vadIntervalRef (cancelFrame h) = vadIntervalRef h"
  "activeAudioRef (cancelFrame h) = activeAudioRef h"
  "mediaStreamRef (cancelFrame h) = mediaStreamRef h"
  "recorderRef (cancelFrame h) = recorderRef h"
  "activeIntervals (cancelFrame h) = activeIntervals h"
  "liveTracks (cancelFrame h) = liveTracks h"
  "pendingFrames (cancelFrame h) = pendingFrames h - {i. rafRef h = Some i \<and> i \<noteq> 0}"
  by (auto simp: cancelFrame_def split: option.splits)

lemma clearVadInterval_frame:
  "rafRef (clearVadInterval h) = rafRef h"
  "vadIntervalRef (clearVadInterval h) = vadIntervalRef h"
  "activeAudioRef (clearVadInterval h) = activeAudioRef h"
  "mediaStreamRef (clearVadInterval h) = mediaStreamRef h"
  "recorderRef (clearVadInterval h) = recorderRef h"
  "pendingFrames (clearVadInterval h) = pendingFrames h"
  "liveTracks (clearVadInterval h) = liveTracks h"
  "activeIntervals (clearVadInterval h) =
     activeIntervals h - {i. vadIntervalRef h = Some i \<and> i \<noteq> 0}"
  by (auto simp: clearVadInterval_def split: option.splits)

lemma pauseActiveAudio_frame:
  "rafRef (pauseActiveAudio h) = rafRef h"
  "vadIntervalRef (pauseActiveAudio h) = vadIntervalRef h"
  "activeAudioRef (pauseActiveAudio h) = None"
  "mediaStreamRef (pauseActiveAudio h) = mediaStreamRef h"
  "pendingFrames (pauseActiveAudio h) = pendingFrames h"
  "activeIntervals (pauseActiveAudio h) = activeIntervals h"
  "liveTracks (pauseActiveAudio h) = liveTracks h"
  by (simp_all add: pauseActiveAudio_def try_catch_def HTMLMediaElement_pause_def
      split: option.splits)

lemma stopTracks_frame:
  "rafRef (stopTracks h) = rafRef h"
  "vadIntervalRef (stopTracks h) = vadIntervalRef h"
  "activeAudioRef (stopTracks h) = activeAudioRef h"
  "mediaStreamRef (stopTracks h) = None"
  "pendingFrames (stopTracks h) = pendingFrames h"
  "activeIntervals (stopTracks h) = activeIntervals h"
  "liveTracks (stopTracks h) =
     liveTracks h - {x. \<exists>tracks. mediaStreamRef h = Some tracks \<and> x \<in> set tracks}"
  by (auto simp: stopTracks_def split: option.splits)

lemmas stop_frames = stopRecorder_frame cancelFrame_frame clearVadInterval_frame
  pauseActiveAudio_frame stopTracks_frame

lemma stopConversation_unfold:
  "stopConversation h =
     Inr ((stopTracks (pauseActiveAudio (stopRecorder (clearVadInterval (cancelFrame h)))))
          \<lparr>processedStreamRef := None, gateGainRef := None, preGainRef := None,
            audioContextRef := None, analyserRef := None, recorderRef := None,
            audioLevel := 0, state := Idle, connectionState := Disconnected, error := None\<rparr>)"
  by (simp add: stopConversation_def Let_def try_catch_def)

lemma stopConversation_fields:
  assumes "stopConversation h = Inr h'"
  shows "state h' = Idle" "connectionState h' = Disconnected" "error h' = None"
    "audioLevel h' = 0" "mediaStreamRef h' = None" "processedStreamRef h' = None"
    "gateGainRef h' = None" "preGainRef h' = None" "audioContextRef h' = None"
    "analyserRef h' = None" "recorderRef h' = None" "activeAudioRef h' = None"
    "rafRef h' = rafRef h" "vadIntervalRef h' = vadIntervalRef h"
    "pendingFrames h' = pendingFrames h - {i. rafRef h = Some i \<and> i \<noteq> 0}"
    "activeIntervals h' = activeIntervals h - {i. vadIntervalRef h = Some i \<and> i \<noteq> 0}"
    "liveTracks h' =
       liveTracks h - {x. \<exists>tracks. mediaStreamRef h = Some tracks \<and> x \<in> set tracks}"
proof -
  from assms have e: "h' =
     (stopTracks (pauseActiveAudio (stopRecorder (clearVadInterval (cancelFrame h)))))
          \<lparr>processedStreamRef := None, gateGainRef := None, preGainRef := None,
            audioContextRef := None, analyserRef := None, recorderRef := None,
            audioLevel := 0, state := Idle, connectionState := Disconnected, error := None\<rparr>"
    unfolding stopConversation_unfold by simp
  show "state h' = Idle" "connectionState h' = Disconnected" "error h' = None"
    "audioLevel h' = 0" "mediaStreamRef h' = None" "processedStreamRef h' = None"
    "gateGainRef h' = None" "preGainRef h' = None" "audioContextRef h' = None"
    "analyserRef h' = None" "recorderRef h' = None" "activeAudioRef h' = None"
    "rafRef h' = rafRef h" "vadIntervalRef h' = vadIntervalRef h"
    "pendingFrames h' = pendingFrames h - {i. rafRef h = Some i \<and> i \<noteq> 0}"
    "activeIntervals h' = activeIntervals h - {i. vadIntervalRef h = Some i \<and> i \<noteq> 0}"
    "liveTracks h' =
       liveTracks h - {x. \<exists>tracks. mediaStreamRef h = Some tracks \<and> x \<in> set tracks}"
    unfolding e by (simp_all add: stop_frames)
qed

lemma stopConversation_again:
  assumes "stopConversation h = Inr h'"
  shows "stopConversation h' = Inr h'"
proof -
  note f = stopConversation_fields [OF assms]
  have pf: "pendingFrames h' - {i} = pendingFrames h'" if "rafRef h' = Some i" "i \<noteq> 0" for i
    using that f(13) f(15) by auto
  have ai: "activeIntervals h' - {i} = activeIntervals h'" if "vadIntervalRef h' = Some i" "i \<noteq> 0" for i
    using that f(14) f(16) by auto
  have c1: "cancelFrame h' = h'"
    using pf by (auto simp: cancelFrame_def split: option.splits)
  have c2: "clearVadInterval h' = h'"
    using ai by (auto simp: clearVadInterval_def split: option.splits)
  have c3: "stopRecorder h' = h'"
    using f(11) by (rule stopRecorder_no_recorder)
  have c4: "pauseActiveAudio h' = h'"
    using f(12) by (simp add: pauseActiveAudio_def)
  have c5: "stopTracks h' = h'"
    using f(5) by (simp add: stopTracks_def)
  have "h'\<lparr>processedStreamRef := None, gateGainRef := None, preGainRef := None,
            audioContextRef := None, analyserRef := None, recorderRef := None,
            audioLevel := 0, state := Idle, connectionState := Disconnected, error := None\<rparr> = h'"
    using f(1-12) by simp
  then show ?thesis
    by (simp add: stopConversation_unfold c1 c2 c3 c4 c5)
qed


lemma stop_world:
  "playingAudio (stopTracks h) = playingAudio h"
  "stopEvents (stopTracks h) = stopEvents h"
  "playingAudio (pauseActiveAudio h) = playingAudio h - {a. activeAudioRef h = Some a}"
  "stopEvents (pauseActiveAudio h) = stopEvents h"
  "playingAudio (clearVadInterval h) = playingAudio h"
  "stopEvents (clearVadInterval h) = stopEvents h"
  "playingAudio (cancelFrame h) = playingAudio h"
  "stopEvents (cancelFrame h) = stopEvents h"
  by (auto simp: stopTracks_def pauseActiveAudio_def clearVadInterval_def cancelFrame_def
      try_catch_def HTMLMediaElement_pause_def split: option.splits)

lemma stopConversation_world:
  assumes "stopConversation h = Inr h'"
  shows "playingAudio h' = playingAudio h - {a. activeAudioRef h = Some a}"
    and "recorderRef h = Some r \<Longrightarrow> recState r \<noteq> Inactive \<Longrightarrow> stopEvents h' = Suc (stopEvents h)"
proof -
  from assms have e: "h' =
     (stopTracks (pauseActiveAudio (stopRecorder (clearVadInterval (cancelFrame h)))))
          \<lparr>processedStreamRef := None, gateGainRef := None, preGainRef := None,
            audioContextRef := None, analyserRef := None, recorderRef := None,
            audioLevel := 0, state := Idle, connectionState := Disconnected, error := None\<rparr>"
    unfolding stopConversation_unfold by simp
  show "playingAudio h' = playingAudio h - {a. activeAudioRef h = Some a}"
    unfolding e by (simp add: stop_world stop_frames)
  show "stopEvents h' = Suc (stopEvents h)" if "recorderRef h = Some r" "recState r \<noteq> Inactive"
  proof -
    have "recorderRef (clearVadInterval (cancelFrame h)) = Some r"
      using that by (simp add: stop_frames)
    from stopRecorder_recording [OF this that(2)]
    show ?thesis unfolding e by (simp add: stop_world)
  qed
qed

text \<open>
  C8. From every state of the hook, the error state included, \<^verbatim>\<open>stopConversation\<close>
  returns without a throw, and a second call right after the first returns the state the
  first call produced. In that state the application state is idle, the connection is
  disconnected, the error is cleared, the audio level is 0, the frame request and the
  interval held in \<^verbatim>\<open>rafRef\<close> and \<^verbatim>\<open>vadIntervalRef\<close> are cancelled, the tracks of the
  microphone stream are stopped, the active audio element is paused, a recorder that was
  recording has been stopped, and the refs of the stream, the graph nodes, the recorder
  and the audio element are null.
\<close>

theorem stopConversation_idempotent:
  "\<exists>h'. stopConversation h = Inr h' \<and> stopConversation h' = Inr h'
      \<and> state h' = Idle \<and> connectionState h' = Disconnected \<and> error h' = None
      \<and> audioLevel h' = 0
      \<and> (\<forall>i. rafRef h = Some i \<and> i \<noteq> 0 \<longrightarrow> i \<notin> pendingFrames h')
      \<and> (\<forall>i. vadIntervalRef h = Some i \<and> i \<noteq> 0 \<longrightarrow> i \<notin> activeIntervals h')
      \<and> (\<forall>tracks. mediaStreamRef h = Some tracks \<longrightarrow> liveTracks h' \<inter> set tracks = {})
      \<and> (\<forall>a. activeAudioRef h = Some a \<longrightarrow> a \<notin> playingAudio h')
      \<and> (\<forall>r. recorderRef h = Some r \<and> recState r \<noteq> Inactive \<longrightarrow>
             stopEvents h' = Suc (stopEvents h))
      \<and> mediaStreamRef h' = None \<and> processedStreamRef h' = None \<and> gateGainRef h' = None
      \<and> preGainRef h' = None \<and> audioContextRef h' = None \<and> analyserRef h' = None
      \<and> recorderRef h' = None \<and> activeAudioRef h' = None"
proof -
  obtain h' where r: "stopConversation h = Inr h'"
    using stopConversation_unfold by blast
  note f = stopConversation_fields [OF r]
  note w = stopConversation_world [OF r]
  have again: "stopConversation h' = Inr h'"
    using r by (rule stopConversation_again)
  have frames: "\<forall>i. rafRef h = Some i \<and> i \<noteq> 0 \<longrightarrow> i \<notin> pendingFrames h'"
    unfolding f(15) by simp
  have intervals: "\<forall>i. vadIntervalRef h = Some i \<and> i \<noteq> 0 \<longrightarrow> i \<notin> activeIntervals h'"
    unfolding f(16) by simp
  have tracks: "\<forall>tracks. mediaStreamRef h = Some tracks \<longrightarrow> liveTracks h' \<inter> set tracks = {}"
    unfolding f(17) by auto
  have audio: "\<forall>a. activeAudioRef h = Some a \<longrightarrow> a \<notin> playingAudio h'"
    unfolding w(1) by simp
  have rec: "\<forall>r. recorderRef h = Some r \<and> recState r \<noteq> Inactive \<longrightarrow>
             stopEvents h' = Suc (stopEvents h)"
    using w(2) by blast
  show ?thesis
    using r again f(1-12) frames intervals tracks audio rec by blast
qed

theorem stopConversation_idempotent_witness:
  "state refusedHook = Error \<and> state speakingHook = Listening
   \<and> liveTracks speakingHook = {1}
   \<and> (\<exists>h'. stopConversation refusedHook = Inr h' \<and> stopConversation h' = Inr h'
          \<and> state h' = Idle \<and> error h' = None)
   \<and> (\<exists>h'. stopConversation speakingHook = Inr h' \<and> stopConversation h' = Inr h'
          \<and> state h' = Idle \<and> liveTracks h' = {} \<and> 2 \<notin> activeIntervals h'
          \<and> stopEvents h' = 1)"
proof -
  have a: "state refusedHook = Error"
    by (simp add: refusedHook_def startConversation_def initialHook_def Let_def)
  have b: "state speakingHook = Listening" "liveTracks speakingHook = {1}"
    "mediaStreamRef speakingHook = Some [1]" "vadIntervalRef speakingHook = Some 2"
    "stopEvents speakingHook = 0"
    "recorderRef speakingHook = Some \<lparr>recState = Recording, mimeType = ''audio/webm;codecs=opus''\<rparr>"
    by (simp_all add: run_simps)
  from stopConversation_idempotent [of refusedHook]
  have c: "\<exists>h'. stopConversation refusedHook = Inr h' \<and> stopConversation h' = Inr h'
          \<and> state h' = Idle \<and> error h' = None"
    by blast
  from stopConversation_idempotent [of speakingHook]
  obtain h' where h': "stopConversation speakingHook = Inr h'" "stopConversation h' = Inr h'"
    "state h' = Idle"
    "\<forall>i. vadIntervalRef speakingHook = Some i \<and> i \<noteq> 0 \<longrightarrow> i \<notin> activeIntervals h'"
    "\<forall>tracks. mediaStreamRef speakingHook = Some tracks \<longrightarrow> liveTracks h' \<inter> set tracks = {}"
    "\<forall>r. recorderRef speakingHook = Some r \<and> recState r \<noteq> Inactive \<longrightarrow>
             stopEvents h' = Suc (stopEvents speakingHook)"
    by blast
  have "liveTracks h' \<subseteq> liveTracks speakingHook"
    using stopConversation_fields(17) [OF h'(1)] by blast
  with h'(5) b have lt: "liveTracks h' = {}" by auto
  have iv: "2 \<notin> activeIntervals h'" using h'(4) b by simp
  have se: "stopEvents h' = 1" using h'(6) b by simp
  from a b c h' lt iv se show ?thesis by blast
qed

subsection \<open>Playback mode\<close>

lemma canUseMSE_never: "\<not> canUseMSE rt resp"
  by (simp add: canUseMSE_def enableStreaming_def)

text \<open>
  C4, as stated, fails. The browser \<open>fullRuntime\<close> has \<^verbatim>\<open>MediaSource\<close>, its
  \<^verbatim>\<open>isTypeSupported\<close> accepts every type, and the reply \<open>audioResponse\<close> has a readable
  body of type audio/mpeg; yet \<^verbatim>\<open>tryStream\<close> does not set up streaming: it plays the
  whole body as one blob.
\<close>

theorem streaming_never_attempted_counterexample:
  "respOk audioResponse \<and> respPayload audioResponse \<noteq> NoPayload
   \<and> hasMediaSource fullRuntime \<and> hasIsTypeSupported fullRuntime
   \<and> isTypeSupported fullRuntime (respContentType audioResponse)
   \<and> isTypeSupported fullRuntime ''audio/mpeg''
   \<and> tryStream fullRuntime audioResponse = Buffered [1, 2]
   \<and> tryStream fullRuntime audioResponse \<noteq> Streamed (newStream audioResponse)
   \<and> snd (onstopResponse t_key fullRuntime 7 (Responded audioResponse) startedHook)
       = Some (Buffered [1, 2])"
  by (simp add: tryStream_def canUseMSE_def enableStreaming_def fallbackToBlob_def respBlob_def
      audioResponse_def fullRuntime_def respOk_def onstopResponse_def Let_def)

text \<open>
  C4, amended. For every reply and every browser, \<^verbatim>\<open>tryStream\<close> goes directly to
  full-buffer playback of the whole body, because \<^verbatim>\<open>enableStreaming\<close> is the constant
  false; so does \<^verbatim>\<open>recorder.onstop\<close> for every reply whose status is a success.
\<close>

theorem playback_always_buffered:
  "tryStream rt resp = Buffered (respBlob resp)
   \<and> (respOk resp \<longrightarrow>
        snd (onstopResponse t rt newAudioId (Responded resp) h) = Some (Buffered (respBlob resp))
        \<and> state (fst (onstopResponse t rt newAudioId (Responded resp) h)) = Speaking)"
  by (simp add: tryStream_def canUseMSE_never fallbackToBlob_def onstopResponse_def Let_def)

theorem playback_always_buffered_witness:
  "respOk audioResponse
   \<and> snd (onstopResponse t_key fullRuntime 7 (Responded audioResponse) startedHook)
       = Some (Buffered [1, 2])
   \<and> state (fst (onstopResponse t_key fullRuntime 7 (Responded audioResponse) startedHook))
       = Speaking"
proof -
  have ok: "respOk audioResponse"
    by (simp add: respOk_def audioResponse_def)
  have blob: "respBlob audioResponse = [1, 2]"
    by (simp add: respBlob_def audioResponse_def)
  from playback_always_buffered [of fullRuntime audioResponse t_key 7 startedHook] ok blob
  show ?thesis by simp
qed

subsection \<open>Watchdog of the streaming branch\<close>

text \<open>
  The streaming branch is written but switched off. What its pieces would do is recorded
  here in terms of its own flags: before \<^verbatim>\<open>started\<close> is set at most one chunk has been
  received, the chunks received and the unread rest make up the body, a watchdog that runs
  with \<^verbatim>\<open>started\<close> and \<^verbatim>\<open>aborted\<close> unset cancels the reader and plays the chunks received,
  and a watchdog that runs with \<^verbatim>\<open>started\<close> set does nothing, also when
  \<^verbatim>\<open>audioEl.play ()\<close> was rejected.
\<close>

lemma streamStep_inv:
  assumes "concat (receivedChunks s) @ concat (unread s) = B"
    and "\<not> started s \<longrightarrow>
          (if awaitingAppend s then length (receivedChunks s) = 1 else receivedChunks s = [])"
  shows "concat (receivedChunks (streamStep resp e s)) @ concat (unread (streamStep resp e s)) = B
       \<and> (\<not> started (streamStep resp e s) \<longrightarrow>
            (if awaitingAppend (streamStep resp e s)
             then length (receivedChunks (streamStep resp e s)) = 1
             else receivedChunks (streamStep resp e s) = []))"
proof (cases e)
  case SourceOpen
  with assms show ?thesis by (auto simp: sourceopen_def)
next
  case ReadSettles
  with assms show ?thesis
    by (auto simp: readSettles_def split: list.splits)
next
  case UpdateEnd
  with assms show ?thesis by (auto simp: updateend_def)
next
  case (PlaySettles fulfilled)
  with assms show ?thesis by (auto simp: playSettles_def)
next
  case WatchdogFires
  with assms show ?thesis by (auto simp: watchdog_def)
qed

lemma streamRun_inv:
  assumes "concat (receivedChunks s) @ concat (unread s) = B"
    and "\<not> started s \<longrightarrow>
          (if awaitingAppend s then length (receivedChunks s) = 1 else receivedChunks s = [])"
  shows "concat (receivedChunks (streamRun resp evs s)) @ concat (unread (streamRun resp evs s)) = B
       \<and> (\<not> started (streamRun resp evs s) \<longrightarrow>
            (if awaitingAppend (streamRun resp evs s)
             then length (receivedChunks (streamRun resp evs s)) = 1
             else receivedChunks (streamRun resp evs s) = []))"
  using assms
proof (induction evs arbitrary: s)
  case Nil
  then show ?case by simp
next
  case (Cons e evs)
  from streamStep_inv [OF Cons.prems, of resp e]
  have "concat (receivedChunks (streamStep resp e s)) @ concat (unread (streamStep resp e s)) = B"
    and "\<not> started (streamStep resp e s) \<longrightarrow>
            (if awaitingAppend (streamStep resp e s)
             then length (receivedChunks (streamStep resp e s)) = 1
             else receivedChunks (streamStep resp e s) = [])"
    by blast+
  from Cons.IH [OF this] show ?case by simp
qed

lemma newStream_inv:
  "concat (receivedChunks (newStream resp)) @ concat (unread (newStream resp)) = respBlob resp"
  "\<not> started (newStream resp) \<longrightarrow>
     (if awaitingAppend (newStream resp) then length (receivedChunks (newStream resp)) = 1
      else receivedChunks (newStream resp) = [])"
  by (simp_all add: newStream_def respBlob_def split: Payload.splits)

lemma watchdog_with_flags_unset:
  assumes "\<not> started (streamRun resp evs (newStream resp))"
    and "\<not> aborted (streamRun resp evs (newStream resp))"
  shows "aborted (watchdog resp (streamRun resp evs (newStream resp)))
       \<and> reader (watchdog resp (streamRun resp evs (newStream resp))) \<noteq> Some True
       \<and> ended (watchdog resp (streamRun resp evs (newStream resp)))
       \<and> fallbackPlayed (watchdog resp (streamRun resp evs (newStream resp)))
           = Some (concat (receivedChunks (streamRun resp evs (newStream resp))))
       \<and> length (receivedChunks (streamRun resp evs (newStream resp))) \<le> 1
       \<and> concat (receivedChunks (streamRun resp evs (newStream resp)))
           @ concat (unread (streamRun resp evs (newStream resp))) = fallbackToBlob None resp"
proof -
  let ?s = "streamRun resp evs (newStream resp)"
  note inv = streamRun_inv [OF newStream_inv(1) [of resp] newStream_inv(2) [of resp],
      where resp = resp and evs = evs]
  have full: "concat (receivedChunks ?s) @ concat (unread ?s) = fallbackToBlob None resp"
    using inv by (simp add: fallbackToBlob_def)
  have few: "length (receivedChunks ?s) \<le> 1"
    using inv assms(1) by (simp split: if_splits)
  have w: "watchdog resp ?s =
      ?s\<lparr>aborted := True, reader := map_option (\<lambda>_. False) (reader ?s), ended := True,
          fallbackPlayed := Some (fallbackToBlob (Some (concat (receivedChunks ?s))) resp)\<rparr>"
    using assms by (simp add: watchdog_def)
  have played: "fallbackPlayed (watchdog resp ?s) = Some (concat (receivedChunks ?s))"
    by (simp add: w fallbackToBlob_def)
  have rd: "reader (watchdog resp ?s) \<noteq> Some True"
    by (cases "reader ?s") (simp_all add: w)
  have ab: "aborted (watchdog resp ?s)" "ended (watchdog resp ?s)"
    by (simp_all add: w)
  from ab rd played few full show ?thesis by blast
qed

lemma watchdog_with_started_set: "started s \<Longrightarrow> watchdog resp s = s"
  by (simp add: watchdog_def)

lemma playSettles_keeps_started: "started (playSettles fulfilled s) = started s"
  by (simp add: playSettles_def)




subsection \<open>Recorder stopped before any data\<close>

lemma stopRecorder_chunks:
  "chunksRef (stopRecorder h) = chunksRef h"
  "requests (stopRecorder h) = requests h"
  "mediaStreamRef (stopRecorder h) = mediaStreamRef h"
  by (simp_all add: stopRecorder_def MediaRecorder_stop_def split: option.splits)

text \<open>
  C6, as stated, fails. The recorder of \<open>speakingHook\<close> is recording and has no chunk; it
  is stopped, the last \<^verbatim>\<open>dataavailable\<close> event carries no byte, and \<^verbatim>\<open>onstop\<close> still
  posts a form, whose audio field is the empty blob.
\<close>

theorem empty_payload_discarded_counterexample:
  "recorderRef speakingHook = Some \<lparr>recState = Recording, mimeType = ''audio/webm;codecs=opus''\<rparr>
   \<and> chunksRef speakingHook = [] \<and> requests speakingHook = []
   \<and> chunksRef (ondataavailable (Some []) (stopRecorder speakingHook)) = []
   \<and> requests (onstopRequest numText ''/'' DEFAULT_CONFIG
        (ondataavailable (Some []) (stopRecorder speakingHook)))
       = [buildForm numText False DEFAULT_CONFIG []]
   \<and> map_of (buildForm numText False DEFAULT_CONFIG []) ''audio'' = Some (BlobValue [])"
  by (simp add: run_simps ondataavailable_def onstopRequest_def isDevRoute_def buildForm_def)

text \<open>
  C6, amended. When the recorder is stopped before any audio data was captured (no chunk
  so far, and a last \<^verbatim>\<open>dataavailable\<close> event without data or with an empty blob), the
  chunk list stays empty and \<^verbatim>\<open>onstop\<close> posts one form like for any utterance, its audio
  field being the empty blob; the chunk list is empty afterwards, the recorder is inactive,
  and the next \<^verbatim>\<open>startRecorder\<close> starts a new recording when the microphone stream is
  there.
\<close>

theorem empty_payload_is_uploaded:
  assumes "recorderRef h = Some r" and "recState r \<noteq> Inactive" and "chunksRef h = []"
    and "data = None \<or> data = Some []"
  shows "chunksRef (ondataavailable data (stopRecorder h)) = []
       \<and> requests (onstopRequest numToString pathname config
            (ondataavailable data (stopRecorder h)))
           = requests h @ [buildForm numToString (isDevRoute pathname) config []]
       \<and> map_of (buildForm numToString (isDevRoute pathname) config []) ''audio''
           = Some (BlobValue [])
       \<and> chunksRef (onstopRequest numToString pathname config
            (ondataavailable data (stopRecorder h))) = []
       \<and> recorderRef (onstopRequest numToString pathname config
            (ondataavailable data (stopRecorder h))) = Some (r\<lparr>recState := Inactive\<rparr>)
       \<and> (mediaStreamRef h \<noteq> None \<longrightarrow>
            map_option recState (recorderRef (startRecorder opus
              (onstopRequest numToString pathname config
                 (ondataavailable data (stopRecorder h))))) = Some Recording)"
proof -
  let ?h1 = "stopRecorder h"
  let ?h2 = "ondataavailable data ?h1"
  let ?h3 = "onstopRequest numToString pathname config ?h2"
  have d: "?h2 = ?h1"
    using assms(4) by (auto simp: ondataavailable_def)
  have c1: "chunksRef ?h1 = []" and q1: "requests ?h1 = requests h"
    and m1: "mediaStreamRef ?h1 = mediaStreamRef h"
    using assms(3) by (simp_all add: stopRecorder_chunks)
  have r1: "recorderRef ?h1 = Some (r\<lparr>recState := Inactive\<rparr>)"
    using stopRecorder_recording [OF assms(1,2)] by simp
  have p1: "chunksRef ?h2 = []" by (simp add: d c1)
  have p2: "requests ?h3 = requests h @ [buildForm numToString (isDevRoute pathname) config []]"
    by (simp add: onstopRequest_def d c1 q1)
  have p3: "map_of (buildForm numToString (isDevRoute pathname) config []) ''audio''
           = Some (BlobValue [])"
    by (simp add: buildForm_def)
  have p4: "chunksRef ?h3 = []" by (simp add: onstopRequest_def)
  have p5: "recorderRef ?h3 = Some (r\<lparr>recState := Inactive\<rparr>)"
    by (simp add: onstopRequest_def d r1)
  have m3: "mediaStreamRef ?h3 = mediaStreamRef h"
    by (simp add: onstopRequest_def d m1)
  have p6: "mediaStreamRef h \<noteq> None \<longrightarrow>
      map_option recState (recorderRef (startRecorder opus ?h3)) = Some Recording"
    using p5 m3 by (simp add: startRecorder_def)
  from p1 p2 p3 p4 p5 p6 show ?thesis by blast
qed

theorem empty_payload_is_uploaded_witness:
  "recorderRef speakingHook = Some \<lparr>recState = Recording, mimeType = ''audio/webm;codecs=opus''\<rparr>
   \<and> chunksRef speakingHook = []
   \<and> requests (onstopRequest numText ''/dev'' DEFAULT_CONFIG
        (ondataavailable (Some []) (stopRecorder speakingHook)))
       = [[(''audio'', BlobValue []), (''language'', TextValue ''de'')]]"
proof -
  have r: "recorderRef speakingHook
      = Some \<lparr>recState = Recording, mimeType = ''audio/webm;codecs=opus''\<rparr>"
    and c: "chunksRef speakingHook = []" and q: "requests speakingHook = []"
    by (simp_all add: run_simps)
  have n: "recState \<lparr>recState = Recording, mimeType = ''audio/webm;codecs=opus''\<rparr> \<noteq> Inactive"
    by simp
  have d: "Some ([] :: byte list) = None \<or> Some ([] :: byte list) = Some []"
    by simp
  from empty_payload_is_uploaded [OF r n c d, of numText "''/dev''" DEFAULT_CONFIG]
  have "requests (onstopRequest numText ''/dev'' DEFAULT_CONFIG
        (ondataavailable (Some []) (stopRecorder speakingHook)))
       = requests speakingHook @ [buildForm numText (isDevRoute ''/dev'') DEFAULT_CONFIG []]"
    by blast
  moreover have "buildForm numText (isDevRoute ''/dev'') DEFAULT_CONFIG []
      = [(''audio'', BlobValue []), (''language'', TextValue ''de'')]"
    by (simp add: buildForm_def isDevRoute_def DEFAULT_CONFIG_def)
  ultimately show ?thesis using r c q by simp
qed

subsection \<open>Errors of the pipeline\<close>

lemma onstopResponse_not_ok:
  "\<not> respOk resp \<Longrightarrow>
     onstopResponse t rt a (Responded resp) h =
       (h\<lparr>error := Some \<lparr>errType = Api, message = t ''error.general''\<rparr>, state := Error\<rparr>, None)"
  by (simp add: onstopResponse_def)

lemma errorReply_not_ok: "\<not> respOk (errorReply msg)"
  by (simp add: errorReply_def respOk_def)

lemma voiceProcess_cases:
  "voiceProcess parseFloat sv fb req =
     \<lparr>respStatus = 400, respContentType = ''application/json'',
      respPayload = JsonPayload [(''error'', ''No audio file uploaded'')]\<rparr>
   \<or> (\<exists>m. voiceProcess parseFloat sv fb req = errorReply m)
   \<or> (\<exists>audio. voiceProcess parseFloat sv fb req =
        \<lparr>respStatus = 200, respContentType = getContentType sv, respPayload = AudioPayload audio\<rparr>)"
proof -
  define isTestMode where "isTestMode = (map_of (reqBody req) ''testMode'' = Some ''true'')"
  define c where "c = resolveConfig parseFloat (reqBody req) fb"
  show ?thesis
  proof (cases "reqFile req = None \<and> \<not> isTestMode")
    case True
    then have "voiceProcess parseFloat sv fb req =
        \<lparr>respStatus = 400, respContentType = ''application/json'',
         respPayload = JsonPayload [(''error'', ''No audio file uploaded'')]\<rparr>"
      unfolding voiceProcess_def Let_def isTestMode_def [symmetric] c_def [symmetric]
      by (rule if_P)
    then show ?thesis by blast
  next
    case False
    then have vp: "voiceProcess parseFloat sv fb req =
        (case userTextStep sv req isTestMode (useLanguage c) of
                 Inl msg \<Rightarrow> errorReply msg
               | Inr userText \<Rightarrow>
                   (case assistantTextStep sv isTestMode c userText of
                      Inl msg \<Rightarrow> errorReply msg
                    | Inr assistantText \<Rightarrow>
                        (case synthesize sv assistantText (ttsOptions c) of
                           Inl msg \<Rightarrow> errorReply msg
                         | Inr audio \<Rightarrow>
                             \<lparr>respStatus = 200, respContentType = getContentType sv,
                              respPayload = AudioPayload audio\<rparr>)))"
      unfolding voiceProcess_def Let_def isTestMode_def [symmetric] c_def [symmetric]
      by (rule if_not_P)
    show ?thesis
    proof (cases "userTextStep sv req isTestMode (useLanguage c)")
      case (Inl m)
      then have "voiceProcess parseFloat sv fb req = errorReply m"
        by (simp add: vp)
      then show ?thesis by blast
    next
      case u: (Inr userText)
      show ?thesis
      proof (cases "assistantTextStep sv isTestMode c userText")
        case (Inl m)
        then have "voiceProcess parseFloat sv fb req = errorReply m"
          by (simp add: vp u)
        then show ?thesis by blast
      next
        case a: (Inr assistantText)
        show ?thesis
        proof (cases "synthesize sv assistantText (ttsOptions c)")
          case (Inl m)
          then have "voiceProcess parseFloat sv fb req = errorReply m"
            by (simp add: vp u a)
          then show ?thesis by blast
        next
          case (Inr audio)
          then have "voiceProcess parseFloat sv fb req =
              \<lparr>respStatus = 200, respContentType = getContentType sv,
               respPayload = AudioPayload audio\<rparr>"
            by (simp add: vp u a)
          then show ?thesis by blast
        qed
      qed
    qed
  qed
qed

text \<open>
  C9, as stated, fails. A failure of the transcription and a failure of the speech
  synthesis get different labels on the server, but the hook ends in one and the same state
  for both replies: the error of type api with the general message. The label has not
  reached the caller.
\<close>

theorem stage_reaches_caller_counterexample:
  "errorLabel ''Whisper transcription failed: timeout'' = ''STT service failed''
   \<and> errorLabel ''OpenAI TTS failed: timeout'' = ''TTS service failed''
   \<and> \<not> respOk (errorReply ''Whisper transcription failed: timeout'')
   \<and> \<not> respOk (errorReply ''OpenAI TTS failed: timeout'')
   \<and> onstopResponse t_key fullRuntime 7
         (Responded (errorReply ''Whisper transcription failed: timeout'')) startedHook
       = onstopResponse t_key fullRuntime 7
         (Responded (errorReply ''OpenAI TTS failed: timeout'')) startedHook
   \<and> error (fst (onstopResponse t_key fullRuntime 7
         (Responded (errorReply ''Whisper transcription failed: timeout'')) startedHook))
       = Some \<lparr>errType = Api, message = ''error.general''\<rparr>"
proof -
  have l1: "errorLabel ''Whisper transcription failed: timeout'' = ''STT service failed''"
    by (simp add: errorLabel_def)
  have l2: "errorLabel ''OpenAI TTS failed: timeout'' = ''TTS service failed''"
    by (simp add: errorLabel_def)
  have n1: "\<not> respOk (errorReply ''Whisper transcription failed: timeout'')"
    and n2: "\<not> respOk (errorReply ''OpenAI TTS failed: timeout'')"
    by (rule errorReply_not_ok)+
  have r1: "onstopResponse t_key fullRuntime 7
         (Responded (errorReply ''Whisper transcription failed: timeout'')) startedHook
       = (startedHook\<lparr>error := Some \<lparr>errType = Api, message = t_key ''error.general''\<rparr>,
            state := Error\<rparr>, None)"
    using n1 by (rule onstopResponse_not_ok)
  have r2: "onstopResponse t_key fullRuntime 7
         (Responded (errorReply ''OpenAI TTS failed: timeout'')) startedHook
       = (startedHook\<lparr>error := Some \<lparr>errType = Api, message = t_key ''error.general''\<rparr>,
            state := Error\<rparr>, None)"
    using n2 by (rule onstopResponse_not_ok)
  have e: "error (fst (onstopResponse t_key fullRuntime 7
         (Responded (errorReply ''Whisper transcription failed: timeout'')) startedHook))
       = Some \<lparr>errType = Api, message = ''error.general''\<rparr>"
    unfolding r1 by (simp add: t_key_def)
  from l1 l2 n1 n2 e show ?thesis
    unfolding r1 r2 by blast
qed

text \<open>
  C9, amended. For every reply that is not a success, the hook ignores the body: it sets
  the error of type api with the general message and the state error, the same for all
  such replies. On the server the \<^verbatim>\<open>catch\<close> block answers with status 500, a label and
  the message; the label is chosen by what the message includes, in this order: STT for
  Whisper or transcription, LLM for GPT or LLM, TTS for TTS, and the generic server error
  otherwise. A reply of the handler that is not a success is such a reply or the status 400
  for a request without audio, which has no label of a stage; either way the hook ends in
  that one state.
\<close>

theorem pipeline_error_label_stays_on_server:
  "(\<not> respOk resp \<longrightarrow>
      onstopResponse t rt a (Responded resp) h =
        (h\<lparr>error := Some \<lparr>errType = Api, message = t ''error.general''\<rparr>, state := Error\<rparr>, None))
   \<and> respStatus (errorReply msg) = 500
   \<and> respPayload (errorReply msg) = JsonPayload [(''error'', errorLabel msg), (''details'', msg)]
   \<and> errorLabel msg =
       (if str_includes msg ''Whisper'' \<or> str_includes msg ''transcription'' then ''STT service failed''
        else if str_includes msg ''GPT'' \<or> str_includes msg ''LLM'' then ''LLM service failed''
        else if str_includes msg ''TTS'' then ''TTS service failed''
        else ''Server error in voice pipeline'')
   \<and> (\<not> respOk (voiceProcess parseFloat sv fb req) \<longrightarrow>
        ((\<exists>m. voiceProcess parseFloat sv fb req = errorReply m)
         \<or> voiceProcess parseFloat sv fb req =
             \<lparr>respStatus = 400, respContentType = ''application/json'',
              respPayload = JsonPayload [(''error'', ''No audio file uploaded'')]\<rparr>)
        \<and> onstopResponse t rt a (Responded (voiceProcess parseFloat sv fb req)) h =
            (h\<lparr>error := Some \<lparr>errType = Api, message = t ''error.general''\<rparr>, state := Error\<rparr>,
             None))"
proof -
  have c1: "\<not> respOk resp \<longrightarrow>
      onstopResponse t rt a (Responded resp) h =
        (h\<lparr>error := Some \<lparr>errType = Api, message = t ''error.general''\<rparr>, state := Error\<rparr>, None)"
    using onstopResponse_not_ok by blast
  have c2: "respStatus (errorReply msg) = 500"
    and c3: "respPayload (errorReply msg) = JsonPayload [(''error'', errorLabel msg), (''details'', msg)]"
    by (simp_all add: errorReply_def)
  have c4: "errorLabel msg =
       (if str_includes msg ''Whisper'' \<or> str_includes msg ''transcription'' then ''STT service failed''
        else if str_includes msg ''GPT'' \<or> str_includes msg ''LLM'' then ''LLM service failed''
        else if str_includes msg ''TTS'' then ''TTS service failed''
        else ''Server error in voice pipeline'')"
    by (rule errorLabel_def)
  have c5: "\<not> respOk (voiceProcess parseFloat sv fb req) \<longrightarrow>
        ((\<exists>m. voiceProcess parseFloat sv fb req = errorReply m)
         \<or> voiceProcess parseFloat sv fb req =
             \<lparr>respStatus = 400, respContentType = ''application/json'',
              respPayload = JsonPayload [(''error'', ''No audio file uploaded'')]\<rparr>)
        \<and> onstopResponse t rt a (Responded (voiceProcess parseFloat sv fb req)) h =
            (h\<lparr>error := Some \<lparr>errType = Api, message = t ''error.general''\<rparr>, state := Error\<rparr>,
             None)"
  proof
    assume n: "\<not> respOk (voiceProcess parseFloat sv fb req)"
    have "\<not> (\<exists>audio. voiceProcess parseFloat sv fb req =
        \<lparr>respStatus = 200, respContentType = getContentType sv, respPayload = AudioPayload audio\<rparr>)"
      using n by (auto simp: respOk_def)
    with voiceProcess_cases [of parseFloat sv fb req]
    have "(\<exists>m. voiceProcess parseFloat sv fb req = errorReply m)
         \<or> voiceProcess parseFloat sv fb req =
             \<lparr>respStatus = 400, respContentType = ''application/json'',
              respPayload = JsonPayload [(''error'', ''No audio file uploaded'')]\<rparr>"
      by blast
    with onstopResponse_not_ok [OF n] show "((\<exists>m. voiceProcess parseFloat sv fb req = errorReply m)
         \<or> voiceProcess parseFloat sv fb req =
             \<lparr>respStatus = 400, respContentType = ''application/json'',
              respPayload = JsonPayload [(''error'', ''No audio file uploaded'')]\<rparr>)
        \<and> onstopResponse t rt a (Responded (voiceProcess parseFloat sv fb req)) h =
            (h\<lparr>error := Some \<lparr>errType = Api, message = t ''error.general''\<rparr>, state := Error\<rparr>,
             None)"
      by blast
  qed
  from c1 c2 c3 c4 c5 show ?thesis by blast
qed

theorem pipeline_error_label_stays_on_server_witness:
  "voiceProcess textNum failingServices SERVER_DEFAULT_CONFIG
       (receive (buildForm numText False DEFAULT_CONFIG []))
     = errorReply ''Whisper transcription failed: timeout''
   \<and> \<not> respOk (voiceProcess textNum failingServices SERVER_DEFAULT_CONFIG
       (receive (buildForm numText False DEFAULT_CONFIG [])))
   \<and> errorLabel ''Whisper transcription failed: timeout'' = ''STT service failed''
   \<and> onstopResponse t_key fullRuntime 7
         (Responded (voiceProcess textNum failingServices SERVER_DEFAULT_CONFIG
            (receive (buildForm numText False DEFAULT_CONFIG [])))) startedHook
       = (startedHook\<lparr>error := Some \<lparr>errType = Api, message = t_key ''error.general''\<rparr>,
            state := Error\<rparr>, None)"
proof -
  let ?req = "receive (buildForm numText False DEFAULT_CONFIG [])"
  let ?reply = "voiceProcess textNum failingServices SERVER_DEFAULT_CONFIG ?req"
  have f: "reqFile ?req = Some []"
    by (simp add: receive_def buildForm_def)
  have m: "map_of (reqBody ?req) ''testMode'' = None"
    by (simp add: receive_def buildForm_def appendIfSet_def DEFAULT_CONFIG_def)
  have u: "userTextStep failingServices ?req False
       (useLanguage (resolveConfig textNum (reqBody ?req) SERVER_DEFAULT_CONFIG))
       = Inl ''Whisper transcription failed: timeout''"
    by (simp add: userTextStep_def f failingServices_def)
  have v: "?reply = errorReply ''Whisper transcription failed: timeout''"
    by (simp add: voiceProcess_def Let_def f m u)
  have n: "\<not> respOk ?reply"
    unfolding v by (rule errorReply_not_ok)
  have l: "errorLabel ''Whisper transcription failed: timeout'' = ''STT service failed''"
    by (simp add: errorLabel_def)
  from pipeline_error_label_stays_on_server
    [of ?reply t_key fullRuntime 7 startedHook "[]" textNum failingServices
       SERVER_DEFAULT_CONFIG ?req] n
  have "onstopResponse t_key fullRuntime 7 (Responded ?reply) startedHook
       = (startedHook\<lparr>error := Some \<lparr>errType = Api, message = t_key ''error.general''\<rparr>,
            state := Error\<rparr>, None)"
    by blast
  with v n l show ?thesis by blast
qed

subsection \<open>Configuration sent and resolved, by route\<close>

lemma textParts_append: "textParts (xs @ ys) = textParts xs @ textParts ys"
  by (induction xs rule: textParts.induct) simp_all

lemma textParts_appendIfSet:
  "textParts (appendIfSet n name x) =
     (case x of None \<Rightarrow> [] | Some v \<Rightarrow> if v \<noteq> 0 then [(name, n v)] else [])"
  by (simp add: appendIfSet_def split: option.splits)

lemma filePart_buildForm: "filePart (buildForm n dev config blob) = Some blob"
  by (simp add: buildForm_def)

lemma body_dev:
  "textParts (buildForm n True config blob) =
     [(''language'', if aiLanguage config = Some ''en'' then ''en'' else ''de'')]"
  by (simp add: buildForm_def)

lemma body_home:
  "textParts (buildForm n False config blob) =
     [(''systemPrompt'', systemPrompt config),
      (''temperature'', n (temperature config)),
      (''voice'', voice config),
      (''language'', if aiLanguage config = Some ''en'' then ''en'' else ''de''),
      (''ttsProvider'', orText (ttsProvider config) ''openai''),
      (''ttsModel'', orText (ttsModel config) ''tts-1''),
      (''greeting'', greeting config)]
     @ textParts (appendIfSet n ''openaiSpeed'' (openaiSpeed config))
     @ textParts (appendIfSet n ''piperSpeed'' (piperSpeed config))
     @ textParts (appendIfSet n ''piperPitch'' (piperPitch config))
     @ textParts (appendIfSet n ''coquiTemperature''
            (case coquiSettings config of None \<Rightarrow> None | Some c \<Rightarrow> coquiTemp c))"
  by (simp add: buildForm_def textParts_append orText_def)

lemma map_of_appendIfSet:
  "map_of (textParts (appendIfSet n name x)) key =
     (if key = name then (case x of None \<Rightarrow> None | Some v \<Rightarrow> if v \<noteq> 0 then Some (n v) else None)
      else None)"
  by (simp add: textParts_appendIfSet split: option.splits)

lemma home_lookup:
  "map_of (textParts (buildForm n False config blob)) ''systemPrompt'' = Some (systemPrompt config)"
  "map_of (textParts (buildForm n False config blob)) ''temperature'' = Some (n (temperature config))"
  "map_of (textParts (buildForm n False config blob)) ''voice'' = Some (voice config)"
  "map_of (textParts (buildForm n False config blob)) ''language''
     = Some (if aiLanguage config = Some ''en'' then ''en'' else ''de'')"
  "map_of (textParts (buildForm n False config blob)) ''ttsProvider''
     = Some (orText (ttsProvider config) ''openai'')"
  "map_of (textParts (buildForm n False config blob)) ''ttsModel''
     = Some (orText (ttsModel config) ''tts-1'')"
  by (simp_all add: body_home)

lemma home_lookup_opt:
  "map_of (textParts (buildForm n False config blob)) ''openaiSpeed''
     = (case openaiSpeed config of None \<Rightarrow> None | Some v \<Rightarrow> if v \<noteq> 0 then Some (n v) else None)"
  "map_of (textParts (buildForm n False config blob)) ''piperSpeed''
     = (case piperSpeed config of None \<Rightarrow> None | Some v \<Rightarrow> if v \<noteq> 0 then Some (n v) else None)"
  "map_of (textParts (buildForm n False config blob)) ''piperPitch''
     = (case piperPitch config of None \<Rightarrow> None | Some v \<Rightarrow> if v \<noteq> 0 then Some (n v) else None)"
  "map_of (textParts (buildForm n False config blob)) ''coquiTemperature''
     = (case (case coquiSettings config of None \<Rightarrow> None | Some c \<Rightarrow> coquiTemp c) of
          None \<Rightarrow> None | Some v \<Rightarrow> if v \<noteq> 0 then Some (n v) else None)"
  by (simp_all add: body_home map_add_def map_of_appendIfSet split: option.splits)

lemma form_lookup:
  "map_of (buildForm n dev config blob) ''audio'' = Some (BlobValue blob)"
  "map_of (buildForm n dev config blob) ''language''
     = Some (TextValue (if aiLanguage config = Some ''en'' then ''en'' else ''de''))"
  "map_of (buildForm n False config blob) ''systemPrompt'' = Some (TextValue (systemPrompt config))"
  "map_of (buildForm n False config blob) ''temperature''
     = Some (TextValue (n (temperature config)))"
  "map_of (buildForm n False config blob) ''voice'' = Some (TextValue (voice config))"
  "map_of (buildForm n False config blob) ''ttsProvider''
     = Some (TextValue (orText (ttsProvider config) ''openai''))"
  "map_of (buildForm n False config blob) ''ttsModel''
     = Some (TextValue (orText (ttsModel config) ''tts-1''))"
  "map_of (buildForm n False config blob) ''greeting'' = Some (TextValue (greeting config))"
  by (simp_all add: buildForm_def orText_def)

lemma map_of_appendIfSet_form:
  "map_of (appendIfSet n name x) key =
     (if key = name
      then (case x of None \<Rightarrow> None | Some v \<Rightarrow> if v \<noteq> 0 then Some (TextValue (n v)) else None)
      else None)"
  by (simp add: appendIfSet_def split: option.splits)

lemma form_lookup_opt:
  "map_of (buildForm n False config blob) ''openaiSpeed''
     = (case openaiSpeed config of None \<Rightarrow> None
        | Some v \<Rightarrow> if v \<noteq> 0 then Some (TextValue (n v)) else None)"
  "map_of (buildForm n False config blob) ''piperSpeed''
     = (case piperSpeed config of None \<Rightarrow> None
        | Some v \<Rightarrow> if v \<noteq> 0 then Some (TextValue (n v)) else None)"
  "map_of (buildForm n False config blob) ''piperPitch''
     = (case piperPitch config of None \<Rightarrow> None
        | Some v \<Rightarrow> if v \<noteq> 0 then Some (TextValue (n v)) else None)"
  "map_of (buildForm n False config blob) ''coquiTemperature''
     = (case (case coquiSettings config of None \<Rightarrow> None | Some c \<Rightarrow> coquiTemp c) of
          None \<Rightarrow> None | Some v \<Rightarrow> if v \<noteq> 0 then Some (TextValue (n v)) else None)"
  by (simp_all add: buildForm_def map_add_def map_of_appendIfSet_form split: option.splits)

lemma resolveConfig_fields:
  "useLanguage (resolveConfig pf body fb)
     = orText (bodyText body ''language'') (orText (fbAiLanguage fb) ''de'')"
  "useSystemPrompt (resolveConfig pf body fb)
     = orText (bodyText body ''systemPrompt'')
         (orText (fbSystemPrompt fb)
            (if useLanguage (resolveConfig pf body fb) = ''en'' then englishPrompt else germanPrompt))"
  "useTemperature (resolveConfig pf body fb)
     = orNum (map_option (\<lambda>x. max 0 (min 2 x)) (bodyNum pf body ''temperature''))
         (orNum (fbTemperature fb) 0.7)"
  "useVoice (resolveConfig pf body fb)
     = orText (bodyText body ''voice'') (orText (fbVoice fb) ''alloy'')"
  "useTtsProvider (resolveConfig pf body fb)
     = orText (bodyText body ''ttsProvider'') (orText (fbTtsProvider fb) ''openai'')"
  "useTtsModel (resolveConfig pf body fb)
     = orText (bodyText body ''ttsModel'') (orText (fbTtsModel fb) ''tts-1'')"
  "useOpenaiSpeed (resolveConfig pf body fb)
     = orNum (bodyNum pf body ''openaiSpeed'') (orNum (fbOpenaiSpeed fb) 1)"
  "usePiperSpeed (resolveConfig pf body fb)
     = orNum (bodyNum pf body ''piperSpeed'') (orNum (fbPiperSpeed fb) 1)"
  "usePiperPitch (resolveConfig pf body fb)
     = orNum (bodyNum pf body ''piperPitch'') (orNum (fbPiperPitch fb) 1)"
  "useCoquiTemperature (resolveConfig pf body fb)
     = orNum (bodyNum pf body ''coquiTemperature'')
         (orNum (case fbCoquiSettings fb of None \<Rightarrow> None | Some c \<Rightarrow> coquiTemp c) 0.7)"
  by (simp_all add: resolveConfig_def Let_def)

lemma resolveConfig_dev:
  "resolveConfig pf (reqBody (receive (buildForm n True config blob))) fb =
     \<lparr>useLanguage = (if aiLanguage config = Some ''en'' then ''en'' else ''de''),
      useSystemPrompt = orText (fbSystemPrompt fb)
         (if aiLanguage config = Some ''en'' then englishPrompt else germanPrompt),
      useTemperature = orNum (fbTemperature fb) 0.7,
      useVoice = orText (fbVoice fb) ''alloy'',
      useTtsProvider = orText (fbTtsProvider fb) ''openai'',
      useTtsModel = orText (fbTtsModel fb) ''tts-1'',
      useOpenaiSpeed = orNum (fbOpenaiSpeed fb) 1,
      usePiperSpeed = orNum (fbPiperSpeed fb) 1,
      usePiperPitch = orNum (fbPiperPitch fb) 1,
      useCoquiTemperature =
        orNum (case fbCoquiSettings fb of None \<Rightarrow> None | Some c \<Rightarrow> coquiTemp c) 0.7\<rparr>"
  by (simp add: resolveConfig_def Let_def receive_def body_dev bodyText_def bodyNum_def
      orText_def orNum_def)

lemma home_text:
  "bodyText (reqBody (receive (buildForm n False config blob))) ''systemPrompt''
     = (if systemPrompt config = [] then None else Some (systemPrompt config))"
  "bodyText (reqBody (receive (buildForm n False config blob))) ''voice''
     = (if voice config = [] then None else Some (voice config))"
  "bodyText (reqBody (receive (buildForm n False config blob))) ''language''
     = Some (if aiLanguage config = Some ''en'' then ''en'' else ''de'')"
  "bodyText (reqBody (receive (buildForm n False config blob))) ''ttsProvider''
     = Some (orText (ttsProvider config) ''openai'')"
  "bodyText (reqBody (receive (buildForm n False config blob))) ''ttsModel''
     = Some (orText (ttsModel config) ''tts-1'')"
  by (simp_all add: bodyText_def receive_def home_lookup orText_def split: option.splits)

text \<open>
  C10, as stated, fails. On the home route, with a configuration whose system prompt is
  empty and whose \<^verbatim>\<open>openaiSpeed\<close> is not set, the form has no field \<^verbatim>\<open>openaiSpeed\<close>, so
  not every configuration field is included; and the field \<^verbatim>\<open>systemPrompt\<close>, which is
  included, does not take priority: the server uses the prompt of its settings.
\<close>

theorem route_config_counterexample:
  "\<not> isDevRoute ''/''
   \<and> map_of (buildForm numText (isDevRoute ''/'')
         (DEFAULT_CONFIG\<lparr>systemPrompt := [], openaiSpeed := None\<rparr>) []) ''openaiSpeed'' = None
   \<and> map_of (buildForm numText (isDevRoute ''/'')
         (DEFAULT_CONFIG\<lparr>systemPrompt := [], openaiSpeed := None\<rparr>) []) ''systemPrompt''
       = Some (TextValue [])
   \<and> fbSystemPrompt SERVER_DEFAULT_CONFIG = Some englishPrompt
   \<and> useSystemPrompt (resolveConfig textNum
         (reqBody (receive (buildForm numText (isDevRoute ''/'')
            (DEFAULT_CONFIG\<lparr>systemPrompt := [], openaiSpeed := None\<rparr>) [])))
         SERVER_DEFAULT_CONFIG) = englishPrompt"
proof -
  let ?cfg = "DEFAULT_CONFIG\<lparr>systemPrompt := [], openaiSpeed := None\<rparr>"
  have r: "isDevRoute ''/'' = False"
    by (simp add: isDevRoute_def)
  have a: "map_of (buildForm numText False ?cfg []) ''openaiSpeed'' = None"
    by (simp add: form_lookup_opt)
  have b: "map_of (buildForm numText False ?cfg []) ''systemPrompt'' = Some (TextValue [])"
    by (simp add: form_lookup)
  have c: "fbSystemPrompt SERVER_DEFAULT_CONFIG = Some englishPrompt"
    by (simp add: SERVER_DEFAULT_CONFIG_def englishPrompt_def)
  have e: "englishPrompt \<noteq> []"
    by (simp add: englishPrompt_def)
  have d: "useSystemPrompt (resolveConfig textNum
         (reqBody (receive (buildForm numText False ?cfg []))) SERVER_DEFAULT_CONFIG)
       = englishPrompt"
    using e by (simp add: resolveConfig_fields(2) home_text c orText_def)
  from a b c d show ?thesis unfolding r by simp
qed

text \<open>
  C10, amended. The route is a dev route exactly when the path is /dev or /debug; the audio
  blob is uploaded on both kinds of route.

  On a dev route the form has the audio blob and the language and nothing else, and the
  server takes the language from the request and every other parameter from its settings,
  with the hardcoded default of the field when the setting is missing, empty or zero.

  On any other route the form always has the system prompt, the temperature, the voice,
  the language, the provider and the model of the speech synthesis and the greeting, and it
  has each of the four provider-specific numbers exactly when that number is set and not
  zero. On the server the language, the provider and the model of the request are used; the
  system prompt and the voice of the request are used when they are not empty, an empty
  system prompt giving way to the settings; the temperature of the request, clamped to
  [0, 2], is used when the clamped value is not zero; and each provider-specific number of
  the request is used when it was sent. The numbers are assumed to survive
  \<^verbatim>\<open>String\<close> followed by \<^verbatim>\<open>parseFloat\<close>.
\<close>

theorem route_dependent_config:
  assumes roundtrip:
    "\<forall>x \<in> formNumbers config. numToString x \<noteq> [] \<and> parseFloat (numToString x) = Some x"
  shows "(isDevRoute pathname \<longleftrightarrow> pathname = ''/dev'' \<or> pathname = ''/debug'')
     \<and> reqFile (receive (buildForm numToString (isDevRoute pathname) config blob)) = Some blob
     \<and> (isDevRoute pathname \<longrightarrow>
          buildForm numToString (isDevRoute pathname) config blob
            = [(''audio'', BlobValue blob),
               (''language'', TextValue (if aiLanguage config = Some ''en'' then ''en'' else ''de''))]
          \<and> resolveConfig parseFloat
               (reqBody (receive (buildForm numToString (isDevRoute pathname) config blob))) fb
            = \<lparr>useLanguage = (if aiLanguage config = Some ''en'' then ''en'' else ''de''),
               useSystemPrompt = orText (fbSystemPrompt fb)
                 (if aiLanguage config = Some ''en'' then englishPrompt else germanPrompt),
               useTemperature = orNum (fbTemperature fb) 0.7,
               useVoice = orText (fbVoice fb) ''alloy'',
               useTtsProvider = orText (fbTtsProvider fb) ''openai'',
               useTtsModel = orText (fbTtsModel fb) ''tts-1'',
               useOpenaiSpeed = orNum (fbOpenaiSpeed fb) 1,
               usePiperSpeed = orNum (fbPiperSpeed fb) 1,
               usePiperPitch = orNum (fbPiperPitch fb) 1,
               useCoquiTemperature =
                 orNum (case fbCoquiSettings fb of None \<Rightarrow> None | Some c \<Rightarrow> coquiTemp c) 0.7\<rparr>)
     \<and> (\<not> isDevRoute pathname \<longrightarrow>
          map_of (buildForm numToString (isDevRoute pathname) config blob) ''systemPrompt''
            = Some (TextValue (systemPrompt config))
          \<and> map_of (buildForm numToString (isDevRoute pathname) config blob) ''temperature''
            = Some (TextValue (numToString (temperature config)))
          \<and> map_of (buildForm numToString (isDevRoute pathname) config blob) ''voice''
            = Some (TextValue (voice config))
          \<and> map_of (buildForm numToString (isDevRoute pathname) config blob) ''language''
            = Some (TextValue (if aiLanguage config = Some ''en'' then ''en'' else ''de''))
          \<and> map_of (buildForm numToString (isDevRoute pathname) config blob) ''ttsProvider''
            = Some (TextValue (orText (ttsProvider config) ''openai''))
          \<and> map_of (buildForm numToString (isDevRoute pathname) config blob) ''ttsModel''
            = Some (TextValue (orText (ttsModel config) ''tts-1''))
          \<and> map_of (buildForm numToString (isDevRoute pathname) config blob) ''greeting''
            = Some (TextValue (greeting config))
          \<and> map_of (buildForm numToString (isDevRoute pathname) config blob) ''openaiSpeed''
            = (case openaiSpeed config of None \<Rightarrow> None
               | Some v \<Rightarrow> if v \<noteq> 0 then Some (TextValue (numToString v)) else None)
          \<and> map_of (buildForm numToString (isDevRoute pathname) config blob) ''piperSpeed''
            = (case piperSpeed config of None \<Rightarrow> None
               | Some v \<Rightarrow> if v \<noteq> 0 then Some (TextValue (numToString v)) else None)
          \<and> map_of (buildForm numToString (isDevRoute pathname) config blob) ''piperPitch''
            = (case piperPitch config of None \<Rightarrow> None
               | Some v \<Rightarrow> if v \<noteq> 0 then Some (TextValue (numToString v)) else None)
          \<and> map_of (buildForm numToString (isDevRoute pathname) config blob) ''coquiTemperature''
            = (case (case coquiSettings config of None \<Rightarrow> None | Some c \<Rightarrow> coquiTemp c) of
                 None \<Rightarrow> None
               | Some v \<Rightarrow> if v \<noteq> 0 then Some (TextValue (numToString v)) else None)
          \<and> useLanguage (resolveConfig parseFloat
               (reqBody (receive (buildForm numToString (isDevRoute pathname) config blob))) fb)
            = (if aiLanguage config = Some ''en'' then ''en'' else ''de'')
          \<and> useSystemPrompt (resolveConfig parseFloat
               (reqBody (receive (buildForm numToString (isDevRoute pathname) config blob))) fb)
            = (if systemPrompt config \<noteq> [] then systemPrompt config
               else orText (fbSystemPrompt fb)
                 (if aiLanguage config = Some ''en'' then englishPrompt else germanPrompt))
          \<and> (voice config \<noteq> [] \<longrightarrow>
               useVoice (resolveConfig parseFloat
                 (reqBody (receive (buildForm numToString (isDevRoute pathname) config blob))) fb)
               = voice config)
          \<and> useTtsProvider (resolveConfig parseFloat
               (reqBody (receive (buildForm numToString (isDevRoute pathname) config blob))) fb)
            = orText (ttsProvider config) ''openai''
          \<and> useTtsModel (resolveConfig parseFloat
               (reqBody (receive (buildForm numToString (isDevRoute pathname) config blob))) fb)
            = orText (ttsModel config) ''tts-1''
          \<and> (max 0 (min 2 (temperature config)) \<noteq> 0 \<longrightarrow>
               useTemperature (resolveConfig parseFloat
                 (reqBody (receive (buildForm numToString (isDevRoute pathname) config blob))) fb)
               = max 0 (min 2 (temperature config)))
          \<and> (\<forall>v. openaiSpeed config = Some v \<and> v \<noteq> 0 \<longrightarrow>
               useOpenaiSpeed (resolveConfig parseFloat
                 (reqBody (receive (buildForm numToString (isDevRoute pathname) config blob))) fb)
               = v)
          \<and> (\<forall>v. piperSpeed config = Some v \<and> v \<noteq> 0 \<longrightarrow>
               usePiperSpeed (resolveConfig parseFloat
                 (reqBody (receive (buildForm numToString (isDevRoute pathname) config blob))) fb)
               = v)
          \<and> (\<forall>v. piperPitch config = Some v \<and> v \<noteq> 0 \<longrightarrow>
               usePiperPitch (resolveConfig parseFloat
                 (reqBody (receive (buildForm numToString (isDevRoute pathname) config blob))) fb)
               = v)
          \<and> (\<forall>c v. coquiSettings config = Some c \<and> coquiTemp c = Some v \<and> v \<noteq> 0 \<longrightarrow>
               useCoquiTemperature (resolveConfig parseFloat
                 (reqBody (receive (buildForm numToString (isDevRoute pathname) config blob))) fb)
               = v))"
proof -
  let ?lang = "if aiLanguage config = Some ''en'' then ''en'' else ''de''"
  have p1: "isDevRoute pathname \<longleftrightarrow> pathname = ''/dev'' \<or> pathname = ''/debug''"
    by (simp add: isDevRoute_def)
  have p2: "reqFile (receive (buildForm numToString (isDevRoute pathname) config blob)) = Some blob"
    by (simp add: receive_def filePart_buildForm)
  have dev: "buildForm numToString True config blob
        = [(''audio'', BlobValue blob), (''language'', TextValue ?lang)]"
    by (simp add: buildForm_def)
  let ?body = "reqBody (receive (buildForm numToString False config blob))"
  let ?rc = "resolveConfig parseFloat ?body fb"
  have rt: "numToString x \<noteq> [] \<and> parseFloat (numToString x) = Some x"
    if "x \<in> formNumbers config" for x
    using roundtrip that by blast
  have num: "bodyNum parseFloat ?body name = Some x"
    if "x \<in> formNumbers config" and "map_of ?body name = Some (numToString x)" for name x
    using rt [OF that(1)] that(2) by (simp add: bodyNum_def bodyText_def)
  have body: "?body = textParts (buildForm numToString False config blob)"
    by (simp add: receive_def)
  have lang: "useLanguage ?rc = ?lang"
    by (simp add: resolveConfig_fields(1) home_text orText_def)
  have sp: "useSystemPrompt ?rc
      = (if systemPrompt config \<noteq> [] then systemPrompt config
         else orText (fbSystemPrompt fb)
           (if aiLanguage config = Some ''en'' then englishPrompt else germanPrompt))"
    unfolding resolveConfig_fields(2) lang by (simp add: home_text orText_def)
  have vo: "voice config \<noteq> [] \<longrightarrow> useVoice ?rc = voice config"
    by (simp add: resolveConfig_fields(4) home_text orText_def)
  have tp: "useTtsProvider ?rc = orText (ttsProvider config) ''openai''"
    by (simp add: resolveConfig_fields(5) home_text orText_def split: option.splits)
  have tm: "useTtsModel ?rc = orText (ttsModel config) ''tts-1''"
    by (simp add: resolveConfig_fields(6) home_text orText_def split: option.splits)
  have te: "max 0 (min 2 (temperature config)) \<noteq> 0 \<longrightarrow>
      useTemperature ?rc = max 0 (min 2 (temperature config))"
  proof -
    have "temperature config \<in> formNumbers config"
      by (simp add: formNumbers_def)
    from num [OF this, of "''temperature''"]
    have "bodyNum parseFloat ?body ''temperature'' = Some (temperature config)"
      by (simp add: body home_lookup)
    then show ?thesis
      by (simp add: resolveConfig_fields(3) orNum_def)
  qed
  have os: "\<forall>v. openaiSpeed config = Some v \<and> v \<noteq> 0 \<longrightarrow> useOpenaiSpeed ?rc = v"
  proof (intro allI impI)
    fix v assume a: "openaiSpeed config = Some v \<and> v \<noteq> 0"
    then have "v \<in> formNumbers config" by (simp add: formNumbers_def)
    from num [OF this, of "''openaiSpeed''"] a
    have "bodyNum parseFloat ?body ''openaiSpeed'' = Some v"
      by (simp add: body home_lookup_opt)
    with a show "useOpenaiSpeed ?rc = v"
      by (simp add: resolveConfig_fields(7) orNum_def)
  qed
  have ps: "\<forall>v. piperSpeed config = Some v \<and> v \<noteq> 0 \<longrightarrow> usePiperSpeed ?rc = v"
  proof (intro allI impI)
    fix v assume a: "piperSpeed config = Some v \<and> v \<noteq> 0"
    then have "v \<in> formNumbers config" by (simp add: formNumbers_def)
    from num [OF this, of "''piperSpeed''"] a
    have "bodyNum parseFloat ?body ''piperSpeed'' = Some v"
      by (simp add: body home_lookup_opt)
    with a show "usePiperSpeed ?rc = v"
      by (simp add: resolveConfig_fields(8) orNum_def)
  qed
  have pp: "\<forall>v. piperPitch config = Some v \<and> v \<noteq> 0 \<longrightarrow> usePiperPitch ?rc = v"
  proof (intro allI impI)
    fix v assume a: "piperPitch config = Some v \<and> v \<noteq> 0"
    then have "v \<in> formNumbers config" by (simp add: formNumbers_def)
    from num [OF this, of "''piperPitch''"] a
    have "bodyNum parseFloat ?body ''piperPitch'' = Some v"
      by (simp add: body home_lookup_opt)
    with a show "usePiperPitch ?rc = v"
      by (simp add: resolveConfig_fields(9) orNum_def)
  qed
  have ct: "\<forall>c v. coquiSettings config = Some c \<and> coquiTemp c = Some v \<and> v \<noteq> 0 \<longrightarrow>
      useCoquiTemperature ?rc = v"
  proof (intro allI impI)
    fix c v assume a: "coquiSettings config = Some c \<and> coquiTemp c = Some v \<and> v \<noteq> 0"
    then have "v \<in> formNumbers config" by (simp add: formNumbers_def)
    from num [OF this, of "''coquiTemperature''"] a
    have "bodyNum parseFloat ?body ''coquiTemperature'' = Some v"
      by (simp add: body home_lookup_opt)
    with a show "useCoquiTemperature ?rc = v"
      by (simp add: resolveConfig_fields(10) orNum_def)
  qed
  note fl = form_lookup(3-8) [of numToString config blob]
    form_lookup(2) [of numToString False config blob]
    form_lookup_opt [of numToString config blob]
  have D: "isDevRoute pathname \<longrightarrow>
          buildForm numToString (isDevRoute pathname) config blob
            = [(''audio'', BlobValue blob),
               (''language'', TextValue (if aiLanguage config = Some ''en'' then ''en'' else ''de''))]
          \<and> resolveConfig parseFloat
               (reqBody (receive (buildForm numToString (isDevRoute pathname) config blob))) fb
            = \<lparr>useLanguage = (if aiLanguage config = Some ''en'' then ''en'' else ''de''),
               useSystemPrompt = orText (fbSystemPrompt fb)
                 (if aiLanguage config = Some ''en'' then englishPrompt else germanPrompt),
               useTemperature = orNum (fbTemperature fb) 0.7,
               useVoice = orText (fbVoice fb) ''alloy'',
               useTtsProvider = orText (fbTtsProvider fb) ''openai'',
               useTtsModel = orText (fbTtsModel fb) ''tts-1'',
               useOpenaiSpeed = orNum (fbOpenaiSpeed fb) 1,
               usePiperSpeed = orNum (fbPiperSpeed fb) 1,
               usePiperPitch = orNum (fbPiperPitch fb) 1,
               useCoquiTemperature =
                 orNum (case fbCoquiSettings fb of None \<Rightarrow> None | Some c \<Rightarrow> coquiTemp c) 0.7\<rparr>"
  proof (intro impI)
    assume "isDevRoute pathname"
    then have e: "isDevRoute pathname = True" by simp
    show "buildForm numToString (isDevRoute pathname) config blob
            = [(''audio'', BlobValue blob),
               (''language'', TextValue (if aiLanguage config = Some ''en'' then ''en'' else ''de''))]
          \<and> resolveConfig parseFloat
               (reqBody (receive (buildForm numToString (isDevRoute pathname) config blob))) fb
            = \<lparr>useLanguage = (if aiLanguage config = Some ''en'' then ''en'' else ''de''),
               useSystemPrompt = orText (fbSystemPrompt fb)
                 (if aiLanguage config = Some ''en'' then englishPrompt else germanPrompt),
               useTemperature = orNum (fbTemperature fb) 0.7,
               useVoice = orText (fbVoice fb) ''alloy'',
               useTtsProvider = orText (fbTtsProvider fb) ''openai'',
               useTtsModel = orText (fbTtsModel fb) ''tts-1'',
               useOpenaiSpeed = orNum (fbOpenaiSpeed fb) 1,
               usePiperSpeed = orNum (fbPiperSpeed fb) 1,
               usePiperPitch = orNum (fbPiperPitch fb) 1,
               useCoquiTemperature =
                 orNum (case fbCoquiSettings fb of None \<Rightarrow> None | Some c \<Rightarrow> coquiTemp c) 0.7\<rparr>"
      unfolding e by (intro conjI) (rule dev resolveConfig_dev)+
  qed
  show ?thesis
  proof (cases "isDevRoute pathname")
    case True
    with p1 p2 D show ?thesis by blast
  next
    case False
    then have e: "isDevRoute pathname = False" by simp
    have p1': "False \<longleftrightarrow> pathname = ''/dev'' \<or> pathname = ''/debug''"
      using p1 unfolding e .
    have p2': "reqFile (receive (buildForm numToString False config blob)) = Some blob"
      using p2 unfolding e .
    show ?thesis
      unfolding e
      by (intro conjI impI; (rule p1' p2' fl lang sp vo [rule_format] tp tm te [rule_format]
            os ps pp ct | simp))
  qed
qed

theorem route_dependent_config_witness:
  "formNumbers DEFAULT_CONFIG = {0.8, 1, 0.7}
   \<and> textNum (numText 0.8) = Some 0.8 \<and> textNum (numText 1) = Some 1
   \<and> textNum (numText 0.7) = Some 0.7
   \<and> isDevRoute ''/dev'' \<and> \<not> isDevRoute ''/''
   \<and> buildForm numText (isDevRoute ''/dev'') DEFAULT_CONFIG [1]
       = [(''audio'', BlobValue [1]), (''language'', TextValue ''de'')]
   \<and> useTemperature (resolveConfig textNum
         (reqBody (receive (buildForm numText (isDevRoute ''/dev'') DEFAULT_CONFIG [1])))
         (SERVER_DEFAULT_CONFIG\<lparr>fbTemperature := Some 0.3\<rparr>)) = 0.3
   \<and> useTemperature (resolveConfig textNum
         (reqBody (receive (buildForm numText (isDevRoute ''/'') DEFAULT_CONFIG [1])))
         (SERVER_DEFAULT_CONFIG\<lparr>fbTemperature := Some 0.3\<rparr>)) = 0.8
   \<and> useOpenaiSpeed (resolveConfig textNum
         (reqBody (receive (buildForm numText (isDevRoute ''/'') DEFAULT_CONFIG [1])))
         (SERVER_DEFAULT_CONFIG\<lparr>fbTemperature := Some 0.3\<rparr>)) = 1"
proof -
  let ?fb = "SERVER_DEFAULT_CONFIG\<lparr>fbTemperature := Some 0.3\<rparr>"
  have nums: "formNumbers DEFAULT_CONFIG = {0.8, 1, 0.7}"
    by (auto simp: formNumbers_def DEFAULT_CONFIG_def)
  have rt: "\<forall>x \<in> formNumbers DEFAULT_CONFIG. numText x \<noteq> [] \<and> textNum (numText x) = Some x"
    unfolding nums by (simp add: numText_def textNum_def)
  have d: "isDevRoute ''/dev''" and h: "\<not> isDevRoute ''/''"
    by (simp_all add: isDevRoute_def)
  note dev = route_dependent_config [OF rt, of "''/dev''" "[1]" ?fb,
      THEN conjunct2, THEN conjunct2, THEN conjunct1, rule_format, OF d]
  note home = route_dependent_config [OF rt, of "''/''" "[1]" ?fb,
      THEN conjunct2, THEN conjunct2, THEN conjunct2, rule_format, OF h]
  have f: "buildForm numText (isDevRoute ''/dev'') DEFAULT_CONFIG [1]
       = [(''audio'', BlobValue [1]), (''language'', TextValue ''de'')]"
    using dev [THEN conjunct1] by (simp add: DEFAULT_CONFIG_def)
  have t1: "useTemperature (resolveConfig textNum
         (reqBody (receive (buildForm numText (isDevRoute ''/dev'') DEFAULT_CONFIG [1]))) ?fb) = 0.3"
    unfolding dev [THEN conjunct2]
    by (simp add: SERVER_DEFAULT_CONFIG_def orNum_def)
  have c: "temperature DEFAULT_CONFIG = 0.8" "openaiSpeed DEFAULT_CONFIG = Some 1"
    by (simp_all add: DEFAULT_CONFIG_def)
  have t2: "useTemperature (resolveConfig textNum
         (reqBody (receive (buildForm numText (isDevRoute ''/'') DEFAULT_CONFIG [1]))) ?fb) = 0.8"
    using home c by simp
  have t3: "useOpenaiSpeed (resolveConfig textNum
         (reqBody (receive (buildForm numText (isDevRoute ''/'') DEFAULT_CONFIG [1]))) ?fb) = 1"
    using home c by simp
  have tn: "textNum (numText 0.8) = Some 0.8" "textNum (numText 1) = Some 1"
    "textNum (numText 0.7) = Some 0.7"
    by (simp_all add: numText_def textNum_def)
  from nums tn d h f t1 t2 t3 show ?thesis by blast
qed

end
